theory Spec2Isabelle
  imports Complex_Main "HOL-Library.Word"
begin

section \<open>Message and geometry types\<close>

text \<open>
  The two nodes exchange ROS messages. Floating-point fields (\<^verbatim>\<open>float\<close>, \<^verbatim>\<open>double\<close>)
  are modelled as real numbers: comparisons and arithmetic are the exact ones, rounding
  and NaN are outside the model. A time stamp (\<^verbatim>\<open>ros::Time\<close>, seconds and
  nanoseconds) is the integer number of nanoseconds; \<^verbatim>\<open>toSec\<close> turns a
  difference of stamps into seconds.
\<close>

type_synonym time = int

definition toSec :: "int \<Rightarrow> real" where
  "toSec d = real_of_int d / 1000000000"

record vec3 =
  vx :: real
  vy :: real
  vz :: real

record quaternion =
  qx :: real
  qy :: real
  qz :: real
  qw :: real

definition Vector3 :: "real \<Rightarrow> real \<Rightarrow> real \<Rightarrow> vec3" where
  "Vector3 a b c = \<lparr>vx = a, vy = b, vz = c\<rparr>"

definition Quaternion :: "real \<Rightarrow> real \<Rightarrow> real \<Rightarrow> real \<Rightarrow> quaternion" where
  "Quaternion a b c d = \<lparr>qx = a, qy = b, qz = c, qw = d\<rparr>"

text \<open>\<^verbatim>\<open>geometry_msgs::Pose\<close>; a default-constructed message has every field zero.\<close>

record pose =
  position :: vec3
  orientation :: quaternion

definition default_pose :: pose where
  "default_pose = \<lparr>position = Vector3 0 0 0, orientation = Quaternion 0 0 0 0\<rparr>"

text \<open>\<^verbatim>\<open>geometry_msgs::Transform\<close> and \<^verbatim>\<open>geometry_msgs::PoseStamped\<close>.\<close>

record transform_msg =
  translation :: vec3
  rotation :: quaternion

record pose_stamped =
  ps_frame_id :: string
  ps_stamp :: time
  ps_pose :: pose

section \<open>The tf2 linear algebra used by the particle filter node\<close>

text \<open>
  \<^verbatim>\<open>tf2::Matrix3x3\<close> (three rows) and \<^verbatim>\<open>tf2::Transform\<close> (a basis and an origin),
  with the operations the node calls, written as in the tf2 headers over the reals.
\<close>

record matrix3x3 =
  m_el0 :: vec3
  m_el1 :: vec3
  m_el2 :: vec3

record transform =
  m_basis :: matrix3x3
  m_origin :: vec3

definition dot :: "vec3 \<Rightarrow> vec3 \<Rightarrow> real" where
  "dot a b = vx a * vx b + vy a * vy b + vz a * vz b"

definition vec_length :: "vec3 \<Rightarrow> real" where
  "vec_length a = sqrt (dot a a)"

definition vec_minus :: "vec3 \<Rightarrow> vec3 \<Rightarrow> vec3" where
  "vec_minus a b = Vector3 (vx a - vx b) (vy a - vy b) (vz a - vz b)"

definition vec_neg :: "vec3 \<Rightarrow> vec3" where
  "vec_neg a = Vector3 (- vx a) (- vy a) (- vz a)"

definition length2 :: "quaternion \<Rightarrow> real" where
  "length2 q = qx q * qx q + qy q * qy q + qz q * qz q + qw q * qw q"

text \<open>\<^verbatim>\<open>Quaternion::normalize\<close>: divide by the length.\<close>

definition normalize :: "quaternion \<Rightarrow> quaternion" where
  "normalize q =
     (let l = sqrt (length2 q) in Quaternion (qx q / l) (qy q / l) (qz q / l) (qw q / l))"

text \<open>\<^verbatim>\<open>Quaternion(axis, angle)\<close>, that is \<^verbatim>\<open>setRotation(axis, angle)\<close>.\<close>

definition Quaternion_axis_angle :: "vec3 \<Rightarrow> real \<Rightarrow> quaternion" where
  "Quaternion_axis_angle axis angle =
     (let d = vec_length axis;
          s = sin (angle * 0.5) / d
      in Quaternion (vx axis * s) (vy axis * s) (vz axis * s) (cos (angle * 0.5)))"

text \<open>\<^verbatim>\<open>Quaternion::setRPY\<close>, also behind \<^verbatim>\<open>tf::createQuaternionFromRPY\<close>.\<close>

definition setRPY :: "real \<Rightarrow> real \<Rightarrow> real \<Rightarrow> quaternion" where
  "setRPY r p y =
     (let halfYaw = y * 0.5; halfPitch = p * 0.5; halfRoll = r * 0.5;
          cosYaw = cos halfYaw; sinYaw = sin halfYaw;
          cosPitch = cos halfPitch; sinPitch = sin halfPitch;
          cosRoll = cos halfRoll; sinRoll = sin halfRoll
      in Quaternion (sinRoll * cosPitch * cosYaw - cosRoll * sinPitch * sinYaw)
                    (cosRoll * sinPitch * cosYaw + sinRoll * cosPitch * sinYaw)
                    (cosRoll * cosPitch * sinYaw - sinRoll * sinPitch * cosYaw)
                    (cosRoll * cosPitch * cosYaw + sinRoll * sinPitch * sinYaw))"

text \<open>\<^verbatim>\<open>Matrix3x3::setRotation(q)\<close>: the rotation matrix of a quaternion.\<close>

definition setRotation :: "quaternion \<Rightarrow> matrix3x3" where
  "setRotation q =
     (let d = length2 q;
          s = 2 / d;
          xs = qx q * s; ys = qy q * s; zs = qz q * s;
          wx = qw q * xs; wy = qw q * ys; wz = qw q * zs;
          xx = qx q * xs; xy = qx q * ys; xz = qx q * zs;
          yy = qy q * ys; yz = qy q * zs; zz = qz q * zs
      in \<lparr>m_el0 = Vector3 (1 - (yy + zz)) (xy - wz) (xz + wy),
          m_el1 = Vector3 (xy + wz) (1 - (xx + zz)) (yz - wx),
          m_el2 = Vector3 (xz - wy) (yz + wx) (1 - (xx + yy))\<rparr>)"

text \<open>\<^verbatim>\<open>Transform(q, c)\<close>; \<^verbatim>\<open>setIdentity\<close>.\<close>

definition Transform :: "quaternion \<Rightarrow> vec3 \<Rightarrow> transform" where
  "Transform q c = \<lparr>m_basis = setRotation q, m_origin = c\<rparr>"

definition identity_transform :: transform where
  "identity_transform =
     \<lparr>m_basis = \<lparr>m_el0 = Vector3 1 0 0, m_el1 = Vector3 0 1 0, m_el2 = Vector3 0 0 1\<rparr>,
      m_origin = Vector3 0 0 0\<rparr>"

text \<open>
  \<^verbatim>\<open>tf2::convert\<close> from a pose message and from a transform message
  (\<^verbatim>\<open>tf2::fromMsg\<close>).
\<close>

definition pose_to_tf :: "pose \<Rightarrow> transform" where
  "pose_to_tf p =
     Transform (Quaternion (qx (orientation p)) (qy (orientation p)) (qz (orientation p))
                  (qw (orientation p)))
               (Vector3 (vx (position p)) (vy (position p)) (vz (position p)))"

definition msg_to_tf :: "transform_msg \<Rightarrow> transform" where
  "msg_to_tf t =
     Transform (Quaternion (qx (rotation t)) (qy (rotation t)) (qz (rotation t))
                  (qw (rotation t)))
               (Vector3 (vx (translation t)) (vy (translation t)) (vz (translation t)))"

text \<open>\<^verbatim>\<open>Matrix3x3::transpose\<close>, \<^verbatim>\<open>transposeTimes\<close>, matrix times vector, vector times matrix.\<close>

definition transpose_m :: "matrix3x3 \<Rightarrow> matrix3x3" where
  "transpose_m a =
     \<lparr>m_el0 = Vector3 (vx (m_el0 a)) (vx (m_el1 a)) (vx (m_el2 a)),
      m_el1 = Vector3 (vy (m_el0 a)) (vy (m_el1 a)) (vy (m_el2 a)),
      m_el2 = Vector3 (vz (m_el0 a)) (vz (m_el1 a)) (vz (m_el2 a))\<rparr>"

definition transposeTimes :: "matrix3x3 \<Rightarrow> matrix3x3 \<Rightarrow> matrix3x3" where
  "transposeTimes a m =
     \<lparr>m_el0 = Vector3
        (vx (m_el0 a) * vx (m_el0 m) + vx (m_el1 a) * vx (m_el1 m) + vx (m_el2 a) * vx (m_el2 m))
        (vx (m_el0 a) * vy (m_el0 m) + vx (m_el1 a) * vy (m_el1 m) + vx (m_el2 a) * vy (m_el2 m))
        (vx (m_el0 a) * vz (m_el0 m) + vx (m_el1 a) * vz (m_el1 m) + vx (m_el2 a) * vz (m_el2 m)),
      m_el1 = Vector3
        (vy (m_el0 a) * vx (m_el0 m) + vy (m_el1 a) * vx (m_el1 m) + vy (m_el2 a) * vx (m_el2 m))
        (vy (m_el0 a) * vy (m_el0 m) + vy (m_el1 a) * vy (m_el1 m) + vy (m_el2 a) * vy (m_el2 m))
        (vy (m_el0 a) * vz (m_el0 m) + vy (m_el1 a) * vz (m_el1 m) + vy (m_el2 a) * vz (m_el2 m)),
      m_el2 = Vector3
        (vz (m_el0 a) * vx (m_el0 m) + vz (m_el1 a) * vx (m_el1 m) + vz (m_el2 a) * vx (m_el2 m))
        (vz (m_el0 a) * vy (m_el0 m) + vz (m_el1 a) * vy (m_el1 m) + vz (m_el2 a) * vy (m_el2 m))
        (vz (m_el0 a) * vz (m_el0 m) + vz (m_el1 a) * vz (m_el1 m) + vz (m_el2 a) * vz (m_el2 m))\<rparr>"

definition mat_vec :: "matrix3x3 \<Rightarrow> vec3 \<Rightarrow> vec3" where
  "mat_vec a v = Vector3 (dot (m_el0 a) v) (dot (m_el1 a) v) (dot (m_el2 a) v)"

definition vec_mat :: "vec3 \<Rightarrow> matrix3x3 \<Rightarrow> vec3" where
  "vec_mat v a =
     Vector3 (vx (m_el0 a) * vx v + vx (m_el1 a) * vy v + vx (m_el2 a) * vz v)
             (vy (m_el0 a) * vx v + vy (m_el1 a) * vy v + vy (m_el2 a) * vz v)
             (vz (m_el0 a) * vx v + vz (m_el1 a) * vy v + vz (m_el2 a) * vz v)"

text \<open>\<^verbatim>\<open>Transform::operator*(Vector3)\<close>, \<^verbatim>\<open>inverse\<close> and \<^verbatim>\<open>inverseTimes\<close>.\<close>

definition transform_apply :: "transform \<Rightarrow> vec3 \<Rightarrow> vec3" where
  "transform_apply t v =
     Vector3 (dot (m_el0 (m_basis t)) v + vx (m_origin t))
             (dot (m_el1 (m_basis t)) v + vy (m_origin t))
             (dot (m_el2 (m_basis t)) v + vz (m_origin t))"

definition inverse_tf :: "transform \<Rightarrow> transform" where
  "inverse_tf t =
     (let inv = transpose_m (m_basis t)
      in \<lparr>m_basis = inv, m_origin = mat_vec inv (vec_neg (m_origin t))\<rparr>)"

definition inverseTimes :: "transform \<Rightarrow> transform \<Rightarrow> transform" where
  "inverseTimes a t =
     (let v = vec_minus (m_origin t) (m_origin a)
      in \<lparr>m_basis = transposeTimes (m_basis a) (m_basis t), m_origin = vec_mat v (m_basis a)\<rparr>)"

text \<open>
  The C library's \<^verbatim>\<open>atan2\<close> on finite arguments (the sign of a zero is outside the
  model).
\<close>

definition atan2 :: "real \<Rightarrow> real \<Rightarrow> real" where
  "atan2 b a =
     (if 0 < a then arctan (b / a)
      else if a < 0 then (if 0 \<le> b then arctan (b / a) + pi else arctan (b / a) - pi)
      else if 0 < b then pi / 2
      else if b < 0 then - (pi / 2)
      else 0)"

text \<open>
  \<^verbatim>\<open>Matrix3x3::getRPY(roll, pitch, yaw)\<close> with the default solution number, which is
  \<^verbatim>\<open>getEulerYPR(yaw, pitch, roll)\<close>: the result is the triple (roll, pitch, yaw).
\<close>

definition getRPY :: "matrix3x3 \<Rightarrow> real \<times> real \<times> real" where
  "getRPY m =
     (if 1 \<le> \<bar>vx (m_el2 m)\<bar> then
        (let delta = atan2 (vy (m_el2 m)) (vz (m_el2 m))
         in if vx (m_el2 m) < 0 then (delta, pi / 2, 0) else (delta, - (pi / 2), 0))
      else
        (let p = - arcsin (vx (m_el2 m));
             r = atan2 (vy (m_el2 m) / cos p) (vz (m_el2 m) / cos p);
             y = atan2 (vx (m_el1 m) / cos p) (vx (m_el0 m) / cos p)
         in (r, p, y)))"

section \<open>Particle filter node: parameters and messages\<close>

text \<open>
  The parameters the constructor of \<^verbatim>\<open>Particles\<close> reads from the parameter server.
  The particle count is an \<^verbatim>\<open>int\<close> that is not negative, a natural number here.
  \<^verbatim>\<open>_publishUpdated\<close> is a member the constructor does not assign in this file; it
  is kept as one more parameter.
\<close>

record std_devs =
  XStdDev :: real
  YStdDev :: real
  ZStdDev :: real
  RollStdDev :: real
  PitchStdDev :: real
  YawStdDev :: real

record params =
  numParticles :: nat
  mapFrameID :: string
  worldFrameID :: string
  baseFootprintFrameID :: string
  filterMaxRange :: real
  filterMinRange :: real
  observationThresholdTranslation :: real
  observationThresholdRotation :: real
  sensorSampleDist :: real
  transformTolerance :: real
  stdDevs :: std_devs
  publishUpdated :: bool

text \<open>The defaults given in the constructor.\<close>

definition default_params :: "bool \<Rightarrow> params" where
  "default_params pu =
     \<lparr>numParticles = 500, mapFrameID = ''map'', worldFrameID = ''world'',
      baseFootprintFrameID = ''base_footprint'',
      filterMaxRange = 14, filterMinRange = 0.05,
      observationThresholdTranslation = 0.3, observationThresholdRotation = 0.4,
      sensorSampleDist = 0.2, transformTolerance = 1.0,
      stdDevs = \<lparr>XStdDev = 0.2, YStdDev = 0.2, ZStdDev = 0.2,
                 RollStdDev = 0.2, PitchStdDev = 0.2, YawStdDev = 0.2\<rparr>,
      publishUpdated = pu\<rparr>"

text \<open>\<^verbatim>\<open>sensor_msgs::LaserScan\<close> (the fields read) and \<^verbatim>\<open>pcl::PointCloud<pcl::PointXYZ>\<close>.\<close>

record laser_scan =
  scan_frame_id :: string
  scan_stamp :: time
  angle_min :: real
  angle_increment :: real
  range_min :: real
  ranges :: "real list"

record point_cloud =
  pc_frame_id :: string
  pc_stamp :: int  \<comment> \<open>microseconds, as the PCL header has it\<close>
  pc_points :: "vec3 list"
  is_dense :: bool

text \<open>
  What can go wrong below the level of the node's own checks: an index handed back by
  the downsampling primitive that lies outside the cloud makes \<^verbatim>\<open>ranges[...]\<close> and
  \<^verbatim>\<open>copyPointCloud\<close> read out of bounds.
\<close>

datatype error = OutOfBoundsRead

section \<open>\<^verbatim>\<open>Particles::prepareLaserPointCloud\<close>\<close>

text \<open>
  The body of the beam loop for a retained beam: the end point of the beam, rotated about
  the z axis by \<^verbatim>\<open>angle_min + beamId * angle_increment\<close>.
\<close>

definition beam_point :: "laser_scan \<Rightarrow> nat \<Rightarrow> vec3" where
  "beam_point scan beamId =
     (let range = ranges scan ! beamId;
          laserAngle = angle_min scan + real beamId * angle_increment scan;
          laserAngleRotation =
            Transform (Quaternion_axis_angle (Vector3 0 0 1) laserAngle) (Vector3 0 0 0);
          laserEndpointTransform = Vector3 range 0 0;
          pt = transform_apply laserAngleRotation laserEndpointTransform
      in Vector3 (vx pt) (vy pt) (vz pt))"

text \<open>
  The loop \<^verbatim>\<open>for (beamId = 0; beamId < numBeams; beamId += step)\<close> with \<^verbatim>\<open>step = 1\<close>;
  its state is the pair of vectors being filled and the count of skipped beams. The
  counter is a natural number: a scan message holds far fewer than \<open>2^31\<close> beams.
\<close>

function beam_loop ::
  "real \<Rightarrow> real \<Rightarrow> laser_scan \<Rightarrow> nat \<Rightarrow> vec3 list \<times> real list \<times> nat
     \<Rightarrow> vec3 list \<times> real list \<times> nat" where
  "beam_loop laserMin laserMax scan beamId (pts, rs, numBeamsSkipped) =
     (if beamId < length (ranges scan) then
        (let range = ranges scan ! beamId
         in if laserMin \<le> range \<and> range \<le> laserMax
            then beam_loop laserMin laserMax scan (beamId + 1)
                   (pts @ [beam_point scan beamId], rs @ [range], numBeamsSkipped)
            else beam_loop laserMin laserMax scan (beamId + 1)
                   (pts, rs, numBeamsSkipped + 1))
      else (pts, rs, numBeamsSkipped))"
  by pat_completeness auto
termination
  by (relation "measure (\<lambda>(laserMin, laserMax, scan, beamId, acc). length (ranges scan) - beamId)")
     auto

declare beam_loop.simps [simp del]

text \<open>The first half of the function: the points and ranges retained before downsampling.\<close>

definition filterBeams :: "params \<Rightarrow> laser_scan \<Rightarrow> vec3 list \<times> real list \<times> nat" where
  "filterBeams cfg scan =
     (let laserMin = max (range_min scan) (filterMinRange cfg)
      in beam_loop laserMin (filterMaxRange cfg) scan 0 ([], [], 0))"

text \<open>
  The whole function. \<open>uniformSampling\<close> stands for \<^verbatim>\<open>pcl::UniformSampling::compute\<close>
  with the given search radius: it returns indices into the cloud it is given.
  \<^verbatim>\<open>pcl::copyPointCloud(cloud, indices, pc)\<close> is taken by its documented meaning,
  \<open>pc[i] = cloud[indices[i]]\<close>. The result is the cloud and the ranges written back
  through the two reference parameters.
\<close>

definition prepareLaserPointCloud ::
  "params \<Rightarrow> (real \<Rightarrow> vec3 list \<Rightarrow> nat list) \<Rightarrow> laser_scan
     \<Rightarrow> error + (point_cloud \<times> real list)" where
  "prepareLaserPointCloud cfg uniformSampling scan =
     (case filterBeams cfg scan of (pts, rs, numBeamsSkipped) \<Rightarrow>
        (let cloud = \<lparr>pc_frame_id = scan_frame_id scan, pc_stamp = scan_stamp scan div 1000,
                       pc_points = pts, is_dense = True\<rparr>;
             sampledIndices = uniformSampling (sensorSampleDist cfg) (pc_points cloud)
         in if list_all (\<lambda>i. i < length (pc_points cloud)) sampledIndices
            then Inr (cloud\<lparr>pc_points := map (\<lambda>i. pc_points cloud ! i) sampledIndices\<rparr>,
                      map (\<lambda>i. rs ! i) sampledIndices)
            else Inl OutOfBoundsRead))"

text \<open>The beams the loop keeps, by index, as the specification words it.\<close>

definition in_range :: "params \<Rightarrow> laser_scan \<Rightarrow> nat \<Rightarrow> bool" where
  "in_range cfg scan i \<longleftrightarrow>
     max (range_min scan) (filterMinRange cfg) \<le> ranges scan ! i \<and>
     ranges scan ! i \<le> filterMaxRange cfg"

definition retained :: "params \<Rightarrow> laser_scan \<Rightarrow> nat list" where
  "retained cfg scan = filter (in_range cfg scan) [0..<length (ranges scan)]"

section \<open>Coverage module: \<^verbatim>\<open>CoverageFinder::publishWaypoints\<close>\<close>

text \<open>
  \<^verbatim>\<open>visualization_msgs::Marker\<close> with the fields the function writes. The marker
  id is an \<^verbatim>\<open>int32\<close>; the shape and action codes are the message's constants
  (\<^verbatim>\<open>CUBE = 1\<close>, \<^verbatim>\<open>ADD = 0\<close>).
\<close>

record color_rgba =
  col_r :: real
  col_g :: real
  col_b :: real
  col_a :: real

record marker =
  marker_frame_id :: string
  marker_stamp :: time
  marker_ns :: string
  marker_id :: "32 word"
  marker_type :: nat
  marker_action :: nat
  marker_pose :: pose
  marker_scale :: vec3
  marker_color :: color_rgba

definition CUBE :: nat where
  "CUBE = 1"

definition ADD :: nat where
  "ADD = 0"

text \<open>The value a default-constructed marker has: what \<^verbatim>\<open>resize\<close> fills in.\<close>

definition default_marker :: marker where
  "default_marker =
     \<lparr>marker_frame_id = [], marker_stamp = 0, marker_ns = [], marker_id = 0,
      marker_type = 0, marker_action = 0, marker_pose = default_pose,
      marker_scale = Vector3 0 0 0,
      marker_color = \<lparr>col_r = 0, col_g = 0, col_b = 0, col_a = 0\<rparr>\<rparr>"

text \<open>\<^verbatim>\<open>std::vector::resize(n)\<close>: truncate, or pad with default-constructed elements.\<close>

definition resize :: "nat \<Rightarrow> 'a \<Rightarrow> 'a list \<Rightarrow> 'a list" where
  "resize n d xs = take n xs @ replicate (n - length xs) d"

text \<open>The marker built in the loop body for the waypoint at index \<open>idx\<close>.\<close>

definition waypoint_marker :: "nat \<Rightarrow> vec3 \<Rightarrow> marker" where
  "waypoint_marker idx p =
     \<lparr>marker_frame_id = ''/map'', marker_stamp = 0, marker_ns = ''coverage_path_planning'',
      marker_id = of_nat idx, marker_type = CUBE, marker_action = ADD,
      marker_pose = \<lparr>position = Vector3 (vx p) (vy p) (vz p),
                     orientation = Quaternion 0 0 0 1\<rparr>,
      marker_scale = Vector3 0.15 0.15 0.15,
      marker_color = \<lparr>col_r = 0, col_g = 0, col_b = 1, col_a = 1\<rparr>\<rparr>"

text \<open>
  The loop \<^verbatim>\<open>for (idx = 0; idx < _points.size(); idx++)\<close>, appending one marker per
  waypoint with \<^verbatim>\<open>push_back\<close>. \<^verbatim>\<open>_points.at(idx)\<close> is always in range here.
\<close>

function publishWaypoints_loop :: "vec3 list \<Rightarrow> nat \<Rightarrow> marker list \<Rightarrow> marker list" where
  "publishWaypoints_loop pts idx markers =
     (if idx < length pts
      then publishWaypoints_loop pts (idx + 1) (markers @ [waypoint_marker idx (pts ! idx)])
      else markers)"
  by pat_completeness auto
termination
  by (relation "measure (\<lambda>(pts, idx, markers). length pts - idx)") auto

declare publishWaypoints_loop.simps [simp del]

text \<open>The marker array handed to the publisher, for the waypoint list \<^verbatim>\<open>_points\<close>.\<close>

definition publishWaypoints :: "vec3 list \<Rightarrow> marker list" where
  "publishWaypoints pts = publishWaypoints_loop pts 0 (resize (length pts) default_marker [])"

section \<open>Particle filter node: collaborators\<close>

text \<open>
  \<^verbatim>\<open>DroneState\<close>, the six scalars of a particle, and the distribution objects the
  initialisation entry points build. A Gaussian distribution is recorded by the six mean
  values handed to the constructor of \<^verbatim>\<open>DroneStateDistribution\<close>, in its argument
  order x, y, z, roll, pitch, yaw, and by the standard deviations.
\<close>

record drone_state =
  xPos :: real
  yPos :: real
  zPos :: real
  roll :: real
  pitch :: real
  yaw :: real

datatype distribution = Gaussian drone_state std_devs | Uniform

datatype resampling_mode = RESAMPLE_NEVER | RESAMPLE_ALWAYS | RESAMPLE_NEFF

text \<open>
  The particle filter object \<^verbatim>\<open>_pf\<close> (\<^verbatim>\<open>libPF::ParticleFilter<DroneState>\<close>) is a
  library object. The model keeps it as the sequence of calls made on it since its
  construction, oldest first: its particle set is a function of that sequence, so an
  unchanged sequence is an unchanged particle set, a fused update is a
  \<^verbatim>\<open>filter(dt)\<close> call and a drift step a \<^verbatim>\<open>drift(dt)\<close> call.
\<close>

datatype pf_call =
    DrawAllFromDistribution distribution
  | SetResamplingMode resampling_mode
  | ResetTimer
  | SetObservationModel
  | is_Filter: Filter real
  | is_Drift: Drift real

text \<open>
  Modelled from the spec: \<^verbatim>\<open>DroneObservationModel\<close>, whose source is not among the
  files; the node swaps in the base-to-sensor transform and the processed observation
  before a filter step, and the model stores them.
\<close>

record observation_model =
  baseToSensor :: transform
  observedCloud :: point_cloud
  observedRanges :: "real list"

text \<open>
  Modelled from the spec: \<^verbatim>\<open>DroneMovementModel\<close>, whose source is not among the
  files. It keeps the last odometry pose, which \<^verbatim>\<open>setLastOdomPose\<close> stores and
  \<^verbatim>\<open>getLastOdomPose\<close> returns; \<^verbatim>\<open>reset\<close> is recorded by counting its calls. Its
  two lookups are answered by the transform buffer and are part of the environment.
\<close>

record movement_model =
  lastOdomPose :: pose_stamped
  resets :: nat

definition setLastOdomPose :: "pose_stamped \<Rightarrow> movement_model \<Rightarrow> movement_model" where
  "setLastOdomPose p m = m\<lparr>lastOdomPose := p\<rparr>"

definition getLastOdomPose :: "movement_model \<Rightarrow> pose_stamped" where
  "getLastOdomPose m = lastOdomPose m"

definition reset :: "movement_model \<Rightarrow> movement_model" where
  "reset m = m\<lparr>resets := resets m + 1\<rparr>"

text \<open>
  What a callback obtains from outside the node while it runs: the two lookups of the
  movement model (\<open>None\<close> when they return false), \<^verbatim>\<open>_tfBuffer.transform\<close> of a pose
  given in a frame at a time into a target frame (\<open>None\<close> when it throws
  \<^verbatim>\<open>tf2::TransformException\<close>), the read accessors of the particle filter, the
  downsampling primitive, the clock, and the pose parameters on the parameter server.
  The two tf2 conversions that only the initial-pose entry points call are taken as given
  as well: \<^verbatim>\<open>Matrix3x3::getRotation\<close>, the quaternion of a rotation matrix, and
  \<^verbatim>\<open>tf2::getEulerYPR(q, yaw, pitch, roll)\<close>, whose three outputs are kept in the
  order of its parameters, the yaw first.
\<close>

record env =
  lookupOdomPose :: "time \<Rightarrow> pose_stamped option"
  lookupTargetToBaseTransform :: "string \<Rightarrow> time \<Rightarrow> transform_msg option"
  tfBuffer_transform :: "string \<Rightarrow> time \<Rightarrow> transform \<Rightarrow> string \<Rightarrow> pose option"
  pf_numParticles :: "pf_call list \<Rightarrow> nat"
  pf_getState :: "pf_call list \<Rightarrow> nat \<Rightarrow> drone_state"
  pf_getBestState :: "pf_call list \<Rightarrow> drone_state"
  uniformSampling :: "real \<Rightarrow> vec3 list \<Rightarrow> nat list"
  now :: time
  posParams :: drone_state
  getRotation :: "matrix3x3 \<Rightarrow> quaternion"
  getEulerYPR :: "quaternion \<Rightarrow> real \<times> real \<times> real"

text \<open>What the node sends out: warnings and published messages, in order.\<close>

record pose_array =
  pa_frame_id :: string
  pa_stamp :: time
  pa_poses :: "pose list"

datatype event =
    Warn_NotInitialized
  | Warn_OlderThanPrevious real
  | WarnOnce_OdometryNotAvailable
  | Warn_FrameIdDiffers string
  | Warn_FailedWorldToMap
  | PublishFilteredCloud point_cloud
  | PublishPoseArray pose_array
  | PublishPose pose_stamped
  | SendTransform string time string transform


section \<open>Particle filter node: the \<^verbatim>\<open>Particles\<close> object\<close>

record particles =
  cfg :: params
  initialized :: bool
  receivedSensorData :: bool
  firstRun :: bool
  lastLaserTime :: time
  lastLocalizedPose :: pose
  latestTransform :: transform
  poseArray :: pose_array
  pf :: "pf_call list"
  mm :: movement_model
  om :: observation_model
  out :: "event list"

text \<open>
  The constructor: the object before any callback has run. The call sequence of the
  freshly constructed particle filter is empty.
\<close>

definition Particles :: "params \<Rightarrow> particles" where
  "Particles c =
     \<lparr>cfg = c, initialized = False, receivedSensorData = False, firstRun = True,
      lastLaserTime = 0, lastLocalizedPose = default_pose,
      latestTransform = identity_transform,
      poseArray = \<lparr>pa_frame_id = mapFrameID c, pa_stamp = 0,
                    pa_poses = resize (numParticles c) default_pose []\<rparr>,
      pf = [],
      mm = \<lparr>lastOdomPose = \<lparr>ps_frame_id = [], ps_stamp = 0, ps_pose = default_pose\<rparr>,
             resets = 0\<rparr>,
      om = \<lparr>baseToSensor = identity_transform,
             observedCloud = \<lparr>pc_frame_id = [], pc_stamp = 0, pc_points = [], is_dense = True\<rparr>,
             observedRanges = []\<rparr>,
      out = []\<rparr>"

text \<open>\<^verbatim>\<open>ros::Duration(double)\<close> in nanoseconds.\<close>

definition durationFromSec :: "real \<Rightarrow> int" where
  "durationFromSec d = \<lfloor>d\<rfloor> * 1000000000 + round ((d - of_int \<lfloor>d\<rfloor>) * 1000000000)"

subsection \<open>\<^verbatim>\<open>isAboveMotionThreshold\<close>\<close>

text \<open>The transform between the last localized pose and the odometry pose.\<close>

definition odomTransform :: "pose \<Rightarrow> pose \<Rightarrow> transform" where
  "odomTransform last_localized odom =
     inverseTimes (pose_to_tf last_localized) (pose_to_tf odom)"

definition isAboveMotionThreshold :: "particles \<Rightarrow> pose_stamped \<Rightarrow> bool" where
  "isAboveMotionThreshold st odom_pose =
     (let t = odomTransform (lastLocalizedPose st) (ps_pose odom_pose)
      in case getRPY (m_basis t) of (r, p, y) \<Rightarrow>
           observationThresholdTranslation (cfg st) \<le> vec_length (m_origin t) \<or>
           observationThresholdRotation (cfg st) \<le> \<bar>y\<bar>)"

subsection \<open>\<^verbatim>\<open>publishPoseEstimate\<close>\<close>

text \<open>
  The pose message built from a particle: its position, and the normalised quaternion of
  its roll, pitch and yaw.
\<close>

definition pose_of_state :: "drone_state \<Rightarrow> pose" where
  "pose_of_state s =
     \<lparr>position = Vector3 (xPos s) (yPos s) (zPos s),
      orientation = normalize (setRPY (roll s) (pitch s) (yaw s))\<rparr>"

text \<open>The pose estimate sent on the pose topic: particle 0, in the map frame, stamped \<open>t\<close>.\<close>

definition bestPose :: "env \<Rightarrow> time \<Rightarrow> particles \<Rightarrow> pose_stamped" where
  "bestPose e t st =
     \<lparr>ps_frame_id = mapFrameID (cfg st), ps_stamp = t,
      ps_pose = pose_of_state (pf_getState e (pf st) 0)\<rparr>"

text \<open>
  The \<^verbatim>\<open>try\<close> block: the inverse of the best particle's pose, stamped in the base
  footprint frame at \<open>t\<close>, is transformed into the world frame. \<open>None\<close> is the
  \<^verbatim>\<open>catch\<close> branch.
\<close>

definition worldToMap :: "env \<Rightarrow> time \<Rightarrow> particles \<Rightarrow> pose option" where
  "worldToMap e t st =
     (let best = pose_of_state (pf_getBestState e (pf st));
          temp_tf2Transform = Transform (orientation best) (position best)
      in tfBuffer_transform e (baseFootprintFrameID (cfg st)) t
           (inverse_tf temp_tf2Transform) (worldFrameID (cfg st)))"

definition publishPoseEstimate :: "env \<Rightarrow> time \<Rightarrow> particles \<Rightarrow> particles" where
  "publishPoseEstimate e t st =
     (let n = pf_numParticles e (pf st);
          arr0 = (poseArray st)\<lparr>pa_stamp := t\<rparr>;
          arr1 = (if length (pa_poses arr0) \<noteq> n
                  then arr0\<lparr>pa_poses := resize n default_pose (pa_poses arr0)\<rparr> else arr0);
          arr2 = arr1\<lparr>pa_poses :=
                   fold (\<lambda>i ps. ps[i := pose_of_state (pf_getState e (pf st) i)]) [0..<n]
                     (pa_poses arr1)\<rparr>;
          st1 = st\<lparr>poseArray := arr2,
                   out := out st @ [PublishPoseArray arr2, PublishPose (bestPose e t st)]\<rparr>
      in case worldToMap e t st of
           None \<Rightarrow> st1\<lparr>out := out st1 @ [Warn_FailedWorldToMap]\<rparr>
         | Some w \<Rightarrow>
             (let lt = pose_to_tf w;
                  transform_expiration = t + durationFromSec (transformTolerance (cfg st))
              in st1\<lparr>latestTransform := lt,
                     out := out st1 @
                       [SendTransform (mapFrameID (cfg st)) transform_expiration
                          (worldFrameID (cfg st)) (inverse_tf lt)]\<rparr>))"

subsection \<open>\<^verbatim>\<open>scanCallback\<close>\<close>

text \<open>The statements after the branches, from \<^verbatim>\<open>_mm->setLastOdomPose(odomPose)\<close> on.\<close>

definition scan_epilogue :: "env \<Rightarrow> laser_scan \<Rightarrow> pose_stamped \<Rightarrow> particles \<Rightarrow> particles" where
  "scan_epilogue e msg odomPose st =
     (let st1 = st\<lparr>mm := setLastOdomPose odomPose (mm st), firstRun := False,
                   lastLaserTime := scan_stamp msg\<rparr>
      in if \<not> publishUpdated (cfg st1) then publishPoseEstimate e (lastLaserTime st1) st1
         else st1)"

text \<open>The full fused update, from \<^verbatim>\<open>prepareLaserPointCloud\<close> to \<^verbatim>\<open>_receivedSensorData = true\<close>.\<close>

definition fused_update ::
  "env \<Rightarrow> laser_scan \<Rightarrow> pose_stamped \<Rightarrow> real \<Rightarrow> particles \<Rightarrow> error + particles option" where
  "fused_update e msg odomPose dt st =
     (case prepareLaserPointCloud (cfg st) (uniformSampling e) msg of
        Inl err \<Rightarrow> Inl err
      | Inr (pcFiltered, laserRanges) \<Rightarrow>
          (case lookupTargetToBaseTransform e (pc_frame_id pcFiltered) (scan_stamp msg) of
             None \<Rightarrow> Inr None
           | Some sensorToBase \<Rightarrow>
               (let baseToSensor_tf = inverse_tf (msg_to_tf sensorToBase);
                    st1 = st\<lparr>out := out st @ [PublishFilteredCloud pcFiltered],
                             om := \<lparr>baseToSensor = baseToSensor_tf, observedCloud = pcFiltered,
                                    observedRanges = laserRanges\<rparr>,
                             pf := pf st @ [SetObservationModel, Filter dt]\<rparr>;
                    st2 = (if publishUpdated (cfg st1)
                           then publishPoseEstimate e (scan_stamp msg) st1 else st1)
                in Inr (Some (st2\<lparr>lastLocalizedPose := ps_pose odomPose,
                                   receivedSensorData := True\<rparr>)))))"

text \<open>
  The callback. \<open>Inl\<close> is the out-of-bounds read inside the preprocessor; every
  \<^verbatim>\<open>return\<close> of the source is an \<open>Inr\<close> branch. In \<open>fused_update\<close>, \<open>Inr None\<close> is
  the \<^verbatim>\<open>return\<close> taken when the sensor-to-base transform is not available.
\<close>

definition scanCallback :: "env \<Rightarrow> laser_scan \<Rightarrow> particles \<Rightarrow> error + particles" where
  "scanCallback e msg st =
     (if \<not> initialized st then Inr (st\<lparr>out := out st @ [Warn_NotInitialized]\<rparr>)
      else
        (let timediff = toSec (scan_stamp msg - lastLaserTime st)
         in if receivedSensorData st \<and> timediff < 0
            then Inr (st\<lparr>out := out st @ [Warn_OlderThanPrevious timediff]\<rparr>)
            else
              (case lookupOdomPose e (scan_stamp msg) of
                 None \<Rightarrow> Inr (st\<lparr>out := out st @ [WarnOnce_OdometryNotAvailable]\<rparr>)
               | Some odomPose \<Rightarrow>
                   if \<not> firstRun st then
                     (let dt = toSec (ps_stamp odomPose - ps_stamp (getLastOdomPose (mm st)))
                      in if \<not> receivedSensorData st \<or> isAboveMotionThreshold st odomPose
                         then (case fused_update e msg odomPose dt st of
                                 Inl err \<Rightarrow> Inl err
                               | Inr None \<Rightarrow> Inr st
                               | Inr (Some st') \<Rightarrow> Inr (scan_epilogue e msg odomPose st'))
                         else Inr (scan_epilogue e msg odomPose (st\<lparr>pf := pf st @ [Drift dt]\<rparr>)))
                   else Inr (scan_epilogue e msg odomPose
                               (st\<lparr>lastLocalizedPose := ps_pose odomPose\<rparr>)))))"

subsection \<open>The timer and the three initialisation entry points\<close>

definition latestTransformTimerCallback :: "time \<Rightarrow> particles \<Rightarrow> particles" where
  "latestTransformTimerCallback current_real st =
     st\<lparr>out := out st @
          [SendTransform (mapFrameID (cfg st))
             (current_real + durationFromSec (transformTolerance (cfg st)))
             (worldFrameID (cfg st)) (inverse_tf (latestTransform st))]\<rparr>"

text \<open>
  The part the three entry points share word for word: draw all particles from the
  distribution, select the resampling mode, reset the filter's timer and the movement
  model, set the three flags, publish.
\<close>

definition reinitialize :: "env \<Rightarrow> distribution \<Rightarrow> time \<Rightarrow> particles \<Rightarrow> particles" where
  "reinitialize e d t st =
     publishPoseEstimate e t
       (st\<lparr>pf := pf st @ [DrawAllFromDistribution d, SetResamplingMode RESAMPLE_NEFF, ResetTimer],
           mm := reset (mm st),
           initialized := True, receivedSensorData := True, firstRun := True\<rparr>)"

text \<open>
  The lines the two initial-pose entry points share. The Euler angles of the transform's
  normalised rotation are read with the call \<^verbatim>\<open>tf2::getEulerYPR(q, roll, pitch, yaw)\<close>.
  The parameters of that function are yaw, pitch, roll in this order, so the node's
  variable \<^verbatim>\<open>roll\<close> receives the yaw and its variable \<^verbatim>\<open>yaw\<close> the roll. The three
  variables are then handed to the distribution as its roll, pitch and yaw, after the
  transform's origin.
\<close>

definition gaussian_distribution :: "env \<Rightarrow> transform \<Rightarrow> std_devs \<Rightarrow> distribution" where
  "gaussian_distribution e tr sd =
     (case getEulerYPR e (normalize (getRotation e (m_basis tr))) of
        (roll_var, pitch_var, yaw_var) \<Rightarrow>
          Gaussian \<lparr>xPos = vx (m_origin tr), yPos = vy (m_origin tr), zPos = vz (m_origin tr),
                    roll = roll_var, pitch = pitch_var, yaw = yaw_var\<rparr> sd)"

definition initialPoseCallback :: "env \<Rightarrow> pose_stamped \<Rightarrow> particles \<Rightarrow> particles" where
  "initialPoseCallback e msg st =
     (let tr = pose_to_tf (ps_pose msg);
          st1 = (if ps_frame_id msg \<noteq> mapFrameID (cfg st)
                 then st\<lparr>out := out st @ [Warn_FrameIdDiffers (ps_frame_id msg)]\<rparr> else st)
      in reinitialize e (gaussian_distribution e tr (stdDevs (cfg st))) (ps_stamp msg) st1)"

definition globalLocalizationCallback :: "env \<Rightarrow> particles \<Rightarrow> particles" where
  "globalLocalizationCallback e st = reinitialize e Uniform (now e) st"

definition initialPoseSrvCallback :: "env \<Rightarrow> particles \<Rightarrow> particles" where
  "initialPoseSrvCallback e st =
     (let p = posParams e;
          quat = setRPY (roll p) (pitch p) (yaw p);
          tr = Transform (normalize quat) (Vector3 (xPos p) (yPos p) (zPos p))
      in reinitialize e (gaussian_distribution e tr (stdDevs (cfg st))) (now e) st)"

text \<open>The states the node can be in: the constructed object, after any run of callbacks.\<close>

inductive reachable :: "particles \<Rightarrow> bool" where
  constructed: "reachable (Particles c)"
| scan: "reachable st \<Longrightarrow> scanCallback e msg st = Inr st' \<Longrightarrow> reachable st'"
| timer: "reachable st \<Longrightarrow> reachable (latestTransformTimerCallback t st)"
| initialPose: "reachable st \<Longrightarrow> reachable (initialPoseCallback e imsg st)"
| globalLocalization: "reachable st \<Longrightarrow> reachable (globalLocalizationCallback e st)"
| initialPoseSrv: "reachable st \<Longrightarrow> reachable (initialPoseSrvCallback e st)"

text \<open>Feeding a list of scans, each with the environment it meets, to the callback.\<close>

fun run_scans :: "particles \<Rightarrow> (env \<times> laser_scan) list \<Rightarrow> error + particles" where
  "run_scans st [] = Inr st"
| "run_scans st ((e, msg) # rest) =
     (case scanCallback e msg st of Inl err \<Rightarrow> Inl err | Inr st' \<Rightarrow> run_scans st' rest)"

section \<open>Particle filter node: vocabulary of the properties\<close>

text \<open>
  A scan passes the three rejection checks of the callback: the node is initialised, the
  scan is not older than the last processed one, and the odometry pose at its stamp
  resolves.
\<close>

definition accepted :: "env \<Rightarrow> laser_scan \<Rightarrow> particles \<Rightarrow> bool" where
  "accepted e msg st \<longleftrightarrow>
     initialized st \<and>
     \<not> (receivedSensorData st \<and> toSec (scan_stamp msg - lastLaserTime st) < 0) \<and>
     lookupOdomPose e (scan_stamp msg) \<noteq> None"

text \<open>The branch of the full fused update is the one taken.\<close>

definition takes_fused :: "particles \<Rightarrow> pose_stamped \<Rightarrow> bool" where
  "takes_fused st odomPose \<longleftrightarrow>
     \<not> firstRun st \<and> (\<not> receivedSensorData st \<or> isAboveMotionThreshold st odomPose)"

text \<open>
  The downsampling primitive keeps its contract on this scan: every index it returns
  points into the cloud it was given.
\<close>

definition sampler_ok :: "env \<Rightarrow> params \<Rightarrow> laser_scan \<Rightarrow> bool" where
  "sampler_ok e c msg \<longleftrightarrow>
     list_all (\<lambda>i. i < length (retained c msg))
       (uniformSampling e (sensorSampleDist c) (map (beam_point msg) (retained c msg)))"

text \<open>The drift calls of a run of scans with the given odometry poses, after a scan stamped \<open>prev\<close>.\<close>

fun drift_calls :: "time \<Rightarrow> pose_stamped list \<Rightarrow> pf_call list" where
  "drift_calls prev [] = []"
| "drift_calls prev (p # ps) = Drift (toSec (ps_stamp p - prev)) # drift_calls (ps_stamp p) ps"

section \<open>Example inputs\<close>

text \<open>A scan with the four ranges of the specification's example, a quarter turn apart.\<close>

definition scan0 :: laser_scan where
  "scan0 = \<lparr>scan_frame_id = ''laser'', scan_stamp = 2000000000, angle_min = 0,
            angle_increment = pi / 2, range_min = 0.05, ranges = [0.02, 5, 15, 3]\<rparr>"

text \<open>A sampler that keeps the second point only.\<close>

definition pick_second :: "real \<Rightarrow> vec3 list \<Rightarrow> nat list" where
  "pick_second r pts = [1]"

text \<open>
  Example conversions for the two tf2 fields of the environment: the quaternion of a
  rotation matrix, right while the trace of the matrix is positive, and the yaw, pitch and
  roll of a quaternion, right away from a pitch of a quarter turn.
\<close>

definition rotation_quaternion :: "matrix3x3 \<Rightarrow> quaternion" where
  "rotation_quaternion m =
     (let trace = vx (m_el0 m) + vy (m_el1 m) + vz (m_el2 m);
          s = sqrt (trace + 1);
          s2 = 0.5 / s
      in Quaternion ((vy (m_el2 m) - vz (m_el1 m)) * s2) ((vz (m_el0 m) - vx (m_el2 m)) * s2)
           ((vx (m_el1 m) - vy (m_el0 m)) * s2) (s * 0.5))"

definition euler_ypr :: "quaternion \<Rightarrow> real \<times> real \<times> real" where
  "euler_ypr q =
     (let sqx = qx q * qx q; sqy = qy q * qy q; sqz = qz q * qz q; sqw = qw q * qw q;
          sarg = - 2 * (qx q * qz q - qw q * qy q) / (sqx + sqy + sqz + sqw)
      in (atan2 (2 * (qx q * qy q + qw q * qz q)) (sqw + sqx - sqy - sqz),
          arcsin sarg,
          atan2 (2 * (qy q * qz q + qw q * qx q)) (sqw - sqx - sqy + sqz)))"

text \<open>
  An environment in which odometry reports the vehicle at rest at the origin, no
  sensor-to-base transform and no frame chain resolve, and all particles of the filter
  are at the origin.
\<close>

definition origin_pose :: pose where
  "origin_pose = \<lparr>position = Vector3 0 0 0, orientation = Quaternion 0 0 0 1\<rparr>"

definition odom_at :: "time \<Rightarrow> pose_stamped" where
  "odom_at t = \<lparr>ps_frame_id = ''world'', ps_stamp = t, ps_pose = origin_pose\<rparr>"

definition zero_state :: drone_state where
  "zero_state = \<lparr>xPos = 0, yPos = 0, zPos = 0, roll = 0, pitch = 0, yaw = 0\<rparr>"

definition env0 :: env where
  "env0 = \<lparr>lookupOdomPose = (\<lambda>t. Some (odom_at t)),
           lookupTargetToBaseTransform = (\<lambda>f t. None),
           tfBuffer_transform = (\<lambda>f t tr g. None),
           pf_numParticles = (\<lambda>calls. 500),
           pf_getState = (\<lambda>calls i. zero_state),
           pf_getBestState = (\<lambda>calls. zero_state),
           uniformSampling = pick_second,
           now = 1000000000,
           posParams = zero_state,
           getRotation = rotation_quaternion,
           getEulerYPR = euler_ypr\<rparr>"

text \<open>
  The example run: the constructed node, a global localization, then the scan \<open>scan0\<close>,
  which takes the first-run branch. \<open>scan_old\<close> carries an earlier stamp.
\<close>

definition st_init :: particles where
  "st_init = globalLocalizationCallback env0 (Particles (default_params False))"

definition st_tracking :: particles where
  "st_tracking =
     scan_epilogue env0 scan0 (odom_at 2000000000) (st_init\<lparr>lastLocalizedPose := origin_pose\<rparr>)"

definition scan_old :: laser_scan where
  "scan_old = scan0\<lparr>scan_stamp := 1000000000\<rparr>"

text \<open>
  Later scans of the example run, and an environment in which the vehicle has moved one
  metre along x and the sensor-to-base transform resolves.
\<close>

definition scan1 :: laser_scan where
  "scan1 = scan0\<lparr>scan_stamp := 3000000000\<rparr>"

definition scan2 :: laser_scan where
  "scan2 = scan0\<lparr>scan_stamp := 4000000000\<rparr>"

definition moved_at :: "time \<Rightarrow> pose_stamped" where
  "moved_at t =
     \<lparr>ps_frame_id = ''world'', ps_stamp = t,
      ps_pose = \<lparr>position = Vector3 1 0 0, orientation = Quaternion 0 0 0 1\<rparr>\<rparr>"

definition env_moved :: env where
  "env_moved = env0\<lparr>lookupOdomPose := (\<lambda>t. Some (moved_at t))\<rparr>"

definition env_moved_tf :: env where
  "env_moved_tf =
     env_moved\<lparr>lookupTargetToBaseTransform :=
       (\<lambda>f t. Some \<lparr>translation = Vector3 0 0 0, rotation = Quaternion 0 0 0 1\<rparr>)\<rparr>"

text \<open>A half turn about the x axis (a roll of \<open>pi\<close>) at the origin.\<close>

definition rolled_at :: "time \<Rightarrow> pose_stamped" where
  "rolled_at t =
     \<lparr>ps_frame_id = ''world'', ps_stamp = t,
      ps_pose = \<lparr>position = Vector3 0 0 0, orientation = Quaternion 1 0 0 0\<rparr>\<rparr>"

text \<open>A quarter turn about the z axis (a yaw of \<open>pi / 2\<close>) at the origin.\<close>

definition yawed_at :: "time \<Rightarrow> pose_stamped" where
  "yawed_at t =
     \<lparr>ps_frame_id = ''world'', ps_stamp = t,
      ps_pose = \<lparr>position = Vector3 0 0 0, orientation = Quaternion 0 0 1 1\<rparr>\<rparr>"

text \<open>
  The example run continued: in the tracking state the scan \<open>scan1\<close> finds the vehicle one
  metre away and is fused. \<open>init_msg\<close> is an initial-pose message at the origin.
\<close>

definition st_fused :: particles where
  "st_fused =
     (case scanCallback env_moved_tf scan1 st_tracking of Inr s \<Rightarrow> s | Inl err \<Rightarrow> st_tracking)"

definition init_msg :: pose_stamped where
  "init_msg = \<lparr>ps_frame_id = ''map'', ps_stamp = 5000000000, ps_pose = origin_pose\<rparr>"

text \<open>
  The start of the example run: the global localization publishes at its own time, one
  second, and the scan callback that follows returns the tracking state.
\<close>

text \<open>
  An initial-pose message at the origin, turned about the z axis by the angle whose
  tangent is 24/7 (the unit quaternion with \<open>z = 3/5\<close> and \<open>w = 4/5\<close>).
\<close>

definition turned_msg :: pose_stamped where
  "turned_msg =
     \<lparr>ps_frame_id = ''map'', ps_stamp = 5000000000,
      ps_pose = \<lparr>position = Vector3 0 0 0, orientation = Quaternion 0 0 (3 / 5) (4 / 5)\<rparr>\<rparr>"

section \<open>Coverage module: properties\<close>

lemma publishWaypoints_loop_eq:
  "idx \<le> length pts \<Longrightarrow>
   publishWaypoints_loop pts idx markers =
     markers @ map (\<lambda>i. waypoint_marker i (pts ! i)) [idx..<length pts]"
proof (induction pts idx markers rule: publishWaypoints_loop.induct)
  case (1 pts idx markers)
  show ?case
  proof (cases "idx < length pts")
    case True
    then have "publishWaypoints_loop pts idx markers =
        publishWaypoints_loop pts (idx + 1) (markers @ [waypoint_marker idx (pts ! idx)])"
      by (subst publishWaypoints_loop.simps) simp
    also have "\<dots> = (markers @ [waypoint_marker idx (pts ! idx)]) @
        map (\<lambda>i. waypoint_marker i (pts ! i)) [idx + 1..<length pts]"
      using "1.IH" True by simp
    also have "\<dots> = markers @ map (\<lambda>i. waypoint_marker i (pts ! i)) [idx..<length pts]"
      using True by (simp add: upt_conv_Cons)
    finally show ?thesis .
  next
    case False
    with "1.prems" have "idx = length pts" by simp
    then show ?thesis by (subst publishWaypoints_loop.simps) simp
  qed
qed

lemma publishWaypoints_eq:
  "publishWaypoints pts =
     replicate (length pts) default_marker @
     map (\<lambda>i. waypoint_marker i (pts ! i)) [0..<length pts]"
  by (simp add: publishWaypoints_def resize_def publishWaypoints_loop_eq)

lemma waypoint_positions:
  "map (\<lambda>i. position (marker_pose (waypoint_marker i (pts ! i)))) [0..<length pts] = pts"
  by (rule nth_equalityI) (simp_all add: waypoint_marker_def Vector3_def)

text \<open>
  C10: for a waypoint list of \<open>k\<close> sensor positions the published array holds \<open>2 * k\<close>
  markers; the first \<open>k\<close> are the default-constructed ones left by \<^verbatim>\<open>resize\<close>, and
  the last \<open>k\<close> are the markers appended by \<^verbatim>\<open>push_back\<close>, which carry the waypoint
  positions in order. (This holds for the empty list as well.)
\<close>

theorem publishWaypoints_doubles:
  "length (publishWaypoints pts) = 2 * length pts \<and>
   take (length pts) (publishWaypoints pts) = replicate (length pts) default_marker \<and>
   drop (length pts) (publishWaypoints pts) =
     map (\<lambda>i. waypoint_marker i (pts ! i)) [0..<length pts] \<and>
   map (\<lambda>m. position (marker_pose m)) (drop (length pts) (publishWaypoints pts)) = pts"
proof -
  let ?k = "length pts"
  let ?new = "map (\<lambda>i. waypoint_marker i (pts ! i)) [0..<?k]"
  have eq: "publishWaypoints pts = replicate ?k default_marker @ ?new"
    by (rule publishWaypoints_eq)
  have len: "length (publishWaypoints pts) = 2 * ?k"
    by (simp add: eq)
  have tk: "take ?k (publishWaypoints pts) = replicate ?k default_marker"
    by (simp add: eq)
  have dr: "drop ?k (publishWaypoints pts) = ?new"
    by (simp add: eq)
  have "map (\<lambda>m. position (marker_pose m)) ?new = pts"
    using waypoint_positions [of pts] by (simp add: comp_def)
  with len tk dr show ?thesis by simp
qed

section \<open>Laser preprocessor: properties\<close>

lemma beam_loop_eq:
  "beamId \<le> length (ranges scan) \<Longrightarrow>
   beam_loop lo hi scan beamId (pts, rs, k) =
     (let K = filter (\<lambda>i. lo \<le> ranges scan ! i \<and> ranges scan ! i \<le> hi)
                [beamId..<length (ranges scan)]
      in (pts @ map (beam_point scan) K, rs @ map (\<lambda>i. ranges scan ! i) K,
          k + (length (ranges scan) - beamId - length K)))"
proof (induction lo hi scan beamId "(pts, rs, k)" arbitrary: pts rs k rule: beam_loop.induct)
  case (1 lo hi scan beamId pts rs k)
  let ?n = "length (ranges scan)"
  let ?P = "\<lambda>i. lo \<le> ranges scan ! i \<and> ranges scan ! i \<le> hi"
  show ?case
  proof (cases "beamId < ?n")
    case False
    with "1.prems" have "beamId = ?n" by simp
    then show ?thesis by (subst beam_loop.simps) simp
  next
    case True
    then have upt: "[beamId..<?n] = beamId # [beamId + 1..<?n]"
      by (simp add: upt_conv_Cons)
    have lenK: "length (filter ?P [beamId + 1..<?n]) \<le> ?n - (beamId + 1)"
      using length_filter_le [of ?P "[beamId + 1..<?n]"] by simp
    show ?thesis
    proof (cases "?P beamId")
      case True
      have "beam_loop lo hi scan beamId (pts, rs, k) =
          beam_loop lo hi scan (beamId + 1)
            (pts @ [beam_point scan beamId], rs @ [ranges scan ! beamId], k)"
        using \<open>beamId < ?n\<close> True by (subst beam_loop.simps) (simp add: Let_def)
      also have "\<dots> = (let K = filter ?P [beamId + 1..<?n]
          in ((pts @ [beam_point scan beamId]) @ map (beam_point scan) K,
              (rs @ [ranges scan ! beamId]) @ map (\<lambda>i. ranges scan ! i) K,
              k + (?n - (beamId + 1) - length K)))"
        using "1.hyps"(1) True \<open>beamId < ?n\<close> by simp
      finally show ?thesis
        using True lenK \<open>beamId < ?n\<close> by (simp add: upt Let_def)
    next
      case False
      have "beam_loop lo hi scan beamId (pts, rs, k) =
          beam_loop lo hi scan (beamId + 1) (pts, rs, k + 1)"
        using \<open>beamId < ?n\<close> False by (subst beam_loop.simps) (auto simp add: Let_def)
      also have "\<dots> = (let K = filter ?P [beamId + 1..<?n]
          in (pts @ map (beam_point scan) K,
              rs @ map (\<lambda>i. ranges scan ! i) K,
              (k + 1) + (?n - (beamId + 1) - length K)))"
        using "1.hyps"(2) False \<open>beamId < ?n\<close> by simp
      finally show ?thesis
        using False lenK \<open>beamId < ?n\<close> by (simp add: upt Let_def)
    qed
  qed
qed


lemma beam_point_polar:
  "beam_point scan i =
     Vector3 (ranges scan ! i * cos (angle_min scan + real i * angle_increment scan))
             (ranges scan ! i * sin (angle_min scan + real i * angle_increment scan)) 0"
proof -
  define a where "a = angle_min scan + real i * angle_increment scan"
  have c: "cos a = 1 - 2 * (sin (a / 2))\<^sup>2"
    using cos_double_sin [of "a / 2"] by simp
  have s: "sin a = 2 * sin (a / 2) * cos (a / 2)"
    using sin_double [of "a / 2"] by simp
  have one: "(sin (a / 2))\<^sup>2 + (cos (a / 2))\<^sup>2 = 1" by simp
  show ?thesis
    using one
    by (simp add: beam_point_def Let_def a_def [symmetric] Transform_def setRotation_def Quaternion_axis_angle_def
        transform_apply_def dot_def vec_length_def length2_def Vector3_def Quaternion_def c s power2_eq_square)
qed

lemma filterBeams_eq:
  "filterBeams c scan =
     (map (beam_point scan) (retained c scan),
      map (\<lambda>i. ranges scan ! i) (retained c scan),
      length (ranges scan) - length (retained c scan))"
proof -
  have "in_range c scan =
      (\<lambda>i. max (range_min scan) (filterMinRange c) \<le> ranges scan ! i \<and>
           ranges scan ! i \<le> filterMaxRange c)"
    by (rule ext) (simp add: in_range_def)
  then show ?thesis
    by (simp add: filterBeams_def retained_def beam_loop_eq Let_def)
qed

lemma retained_nth:
  "j < length (retained c scan) \<Longrightarrow>
   retained c scan ! j < length (ranges scan) \<and> in_range c scan (retained c scan ! j)"
proof -
  assume "j < length (retained c scan)"
  then have "retained c scan ! j \<in> set (retained c scan)" by (rule nth_mem)
  then show ?thesis by (simp add: retained_def)
qed

text \<open>
  C2: the beam loop retains exactly the beams whose range lies in the closed interval
  from \<open>max (range_min, filterMinRange)\<close> to \<open>filterMaxRange\<close>, in scan order, each with
  the point at angle \<open>angle_min + index * angle_increment\<close> and its range, and counts the
  others as skipped. For the ranges 0.02, 5, 15, 3 with \<open>range_min = 0.05\<close> and
  \<open>filterMaxRange = 14\<close> (and a configured minimum that does not exceed 3, as the default
  0.05) the beams 1 and 3, with ranges 5 and 3, are what is retained before downsampling.
\<close>

theorem prepareLaserPointCloud_filter:
  "filterBeams c scan =
     (map (beam_point scan) (retained c scan),
      map (\<lambda>i. ranges scan ! i) (retained c scan),
      length (ranges scan) - length (retained c scan)) \<and>
   beam_point scan i =
     Vector3 (ranges scan ! i * cos (angle_min scan + real i * angle_increment scan))
             (ranges scan ! i * sin (angle_min scan + real i * angle_increment scan)) 0 \<and>
   (ranges scan = [0.02, 5, 15, 3] \<longrightarrow> range_min scan = 0.05 \<longrightarrow>
    filterMaxRange c = 14 \<longrightarrow> filterMinRange c \<le> 3 \<longrightarrow>
      retained c scan = [1, 3] \<and>
      fst (snd (filterBeams c scan)) = [5, 3] \<and>
      fst (filterBeams c scan) = [beam_point scan 1, beam_point scan 3])"
proof -
  have ex: "retained c scan = [1, 3]"
    if "ranges scan = [0.02, 5, 15, 3]" "range_min scan = 0.05"
       "filterMaxRange c = 14" "filterMinRange c \<le> 3"
  proof -
    have "[0..<length (ranges scan)] = [0, 1, 2, 3]"
      using that(1) by (simp add: upt_conv_Cons)
    then show ?thesis
      using that by (simp add: retained_def in_range_def)
  qed
  show ?thesis
    using ex by (simp add: filterBeams_eq beam_point_polar)
qed

theorem prepareLaserPointCloud_filter_witness:
  "ranges scan0 = [0.02, 5, 15, 3] \<and> range_min scan0 = 0.05 \<and>
   filterMaxRange (default_params False) = 14 \<and> filterMinRange (default_params False) \<le> 3 \<and>
   filterBeams (default_params False) scan0 = ([Vector3 0 5 0, Vector3 0 (- 3) 0], [5, 3], 2)"
proof -
  have h: "ranges scan0 = [0.02, 5, 15, 3]" "range_min scan0 = 0.05"
    "filterMaxRange (default_params False) = 14" "filterMinRange (default_params False) \<le> 3"
    by (simp_all add: scan0_def default_params_def)
  from prepareLaserPointCloud_filter [of "default_params False" scan0 0] h
  have r: "retained (default_params False) scan0 = [1, 3]"
    and f: "filterBeams (default_params False) scan0 =
      (map (beam_point scan0) (retained (default_params False) scan0),
       map (\<lambda>i. ranges scan0 ! i) (retained (default_params False) scan0),
       length (ranges scan0) - length (retained (default_params False) scan0))"
    by blast+
  have p1: "beam_point scan0 (Suc 0) = Vector3 0 5 0"
    by (simp add: beam_point_polar scan0_def)
  have c3: "cos (3 * pi / 2) = 0"
    using cos_3over2_pi by simp
  have s3: "sin (3 * pi / 2) = - 1"
    using sin_3over2_pi by simp
  have p3: "beam_point scan0 3 = Vector3 0 (- 3) 0"
    by (simp add: beam_point_polar scan0_def c3 s3)
  have "filterBeams (default_params False) scan0 = ([Vector3 0 5 0, Vector3 0 (- 3) 0], [5, 3], 2)"
    unfolding f r using p1 p3 by (simp add: scan0_def)
  with h show ?thesis by blast
qed

text \<open>
  C8: when the downsampling primitive returns indices into the cloud it was given, the
  preprocessor returns a cloud and a range vector of the same length, and at every
  position the point and the range are those of one and the same retained beam: the beam
  the sampled index selects.
\<close>

theorem downsampling_index_aligned:
  assumes "list_all (\<lambda>i. i < length (retained c scan))
             (us (sensorSampleDist c) (map (beam_point scan) (retained c scan)))"
  shows "\<exists>pc rs. prepareLaserPointCloud c us scan = Inr (pc, rs) \<and>
      length rs = length (pc_points pc) \<and>
      (\<forall>i < length rs.
         let b = retained c scan !
                   (us (sensorSampleDist c) (map (beam_point scan) (retained c scan)) ! i)
         in b < length (ranges scan) \<and> in_range c scan b \<and>
            pc_points pc ! i = beam_point scan b \<and> rs ! i = ranges scan ! b)"
proof -
  let ?K = "retained c scan"
  let ?idx = "us (sensorSampleDist c) (map (beam_point scan) ?K)"
  let ?pc = "\<lparr>pc_frame_id = scan_frame_id scan, pc_stamp = scan_stamp scan div 1000,
              pc_points = map (\<lambda>i. map (beam_point scan) ?K ! i) ?idx, is_dense = True\<rparr>"
  let ?rs = "map (\<lambda>i. map (\<lambda>i. ranges scan ! i) ?K ! i) ?idx"
  have res: "prepareLaserPointCloud c us scan = Inr (?pc, ?rs)"
    using assms by (simp add: prepareLaserPointCloud_def filterBeams_eq Let_def)
  have in_K: "?idx ! i < length ?K" if "i < length ?idx" for i
    using assms that by (simp add: list_all_length)
  have "\<forall>i < length ?rs.
         let b = ?K ! (?idx ! i)
         in b < length (ranges scan) \<and> in_range c scan b \<and>
            pc_points ?pc ! i = beam_point scan b \<and> ?rs ! i = ranges scan ! b"
    using in_K retained_nth [of _ c scan] by (simp add: Let_def)
  with res show ?thesis
    by (intro exI [of _ ?pc] exI [of _ ?rs]) simp
qed

theorem downsampling_index_aligned_witness:
  "list_all (\<lambda>i. i < length (retained (default_params False) scan0))
     (pick_second (sensorSampleDist (default_params False))
        (map (beam_point scan0) (retained (default_params False) scan0))) \<and>
   prepareLaserPointCloud (default_params False) pick_second scan0 =
     Inr (\<lparr>pc_frame_id = ''laser'', pc_stamp = 2000000, pc_points = [Vector3 0 (- 3) 0],
           is_dense = True\<rparr>, [3])"
proof -
  have "[0..<length (ranges scan0)] = [0, 1, 2, 3]"
    by (simp add: scan0_def upt_conv_Cons)
  then have r: "retained (default_params False) scan0 = [1, 3]"
    by (simp add: retained_def in_range_def scan0_def default_params_def)
  have h: "list_all (\<lambda>i. i < length (retained (default_params False) scan0))
     (pick_second (sensorSampleDist (default_params False))
        (map (beam_point scan0) (retained (default_params False) scan0)))"
    by (simp add: r pick_second_def)
  have c3: "cos (3 * pi / 2) = 0"
    using cos_3over2_pi by simp
  have s3: "sin (3 * pi / 2) = - 1"
    using sin_3over2_pi by simp
  have p3: "beam_point scan0 3 = Vector3 0 (- 3) 0"
    by (simp add: beam_point_polar scan0_def c3 s3)
  from downsampling_index_aligned
    [where c = "default_params False" and scan = scan0 and us = pick_second, OF h]
  obtain pc rs where res: "prepareLaserPointCloud (default_params False) pick_second scan0 = Inr (pc, rs)"
    and al: "\<forall>i < length rs.
         let b = retained (default_params False) scan0 !
                   (pick_second (sensorSampleDist (default_params False))
                      (map (beam_point scan0) (retained (default_params False) scan0)) ! i)
         in b < length (ranges scan0) \<and> in_range (default_params False) scan0 b \<and>
            pc_points pc ! i = beam_point scan0 b \<and> rs ! i = ranges scan0 ! b"
    by blast
  have "prepareLaserPointCloud (default_params False) pick_second scan0 =
     Inr (\<lparr>pc_frame_id = ''laser'', pc_stamp = 2000000, pc_points = [Vector3 0 (- 3) 0],
           is_dense = True\<rparr>, [3])"
  proof -
    have flds: "scan_frame_id scan0 = ''laser''" "scan_stamp scan0 div 1000 = 2000000"
      "ranges scan0 = [0.02, 5, 15, 3]"
      by (simp_all add: scan0_def)
    show ?thesis
      by (simp add: prepareLaserPointCloud_def filterBeams_eq r pick_second_def p3 Let_def flds)
  qed
  with h show ?thesis by simp
qed

section \<open>Particle filter node: properties of the callbacks\<close>

lemma publishPoseEstimate_keeps [simp]:
  "cfg (publishPoseEstimate e t st) = cfg st"
  "initialized (publishPoseEstimate e t st) = initialized st"
  "receivedSensorData (publishPoseEstimate e t st) = receivedSensorData st"
  "firstRun (publishPoseEstimate e t st) = firstRun st"
  "lastLaserTime (publishPoseEstimate e t st) = lastLaserTime st"
  "lastLocalizedPose (publishPoseEstimate e t st) = lastLocalizedPose st"
  "pf (publishPoseEstimate e t st) = pf st"
  "mm (publishPoseEstimate e t st) = mm st"
  "om (publishPoseEstimate e t st) = om st"
  by (simp_all add: publishPoseEstimate_def Let_def split: option.split)

lemma publishPoseEstimate_out:
  "\<exists>arr bp post. out (publishPoseEstimate e t st) =
       out st @ PublishPoseArray arr # PublishPose bp # post \<and>
     ps_stamp bp = t \<and> ps_frame_id bp = mapFrameID (cfg st) \<and> length post = 1"
  by (simp add: publishPoseEstimate_def bestPose_def Let_def split: option.split)

lemma publishPoseEstimate_failed:
  "worldToMap e t st = None \<Longrightarrow>
   latestTransform (publishPoseEstimate e t st) = latestTransform st \<and>
   (\<exists>arr bp. out (publishPoseEstimate e t st) =
      out st @ [PublishPoseArray arr, PublishPose bp, Warn_FailedWorldToMap])"
  by (simp add: publishPoseEstimate_def Let_def)

lemma worldToMap_cong:
  "pf st' = pf st \<Longrightarrow> cfg st' = cfg st \<Longrightarrow> worldToMap e t st' = worldToMap e t st"
  by (simp add: worldToMap_def)

lemma reinitialize_fields [simp]:
  "cfg (reinitialize e d t st) = cfg st"
  "initialized (reinitialize e d t st)"
  "receivedSensorData (reinitialize e d t st)"
  "firstRun (reinitialize e d t st)"
  "lastLaserTime (reinitialize e d t st) = lastLaserTime st"
  "lastLocalizedPose (reinitialize e d t st) = lastLocalizedPose st"
  "pf (reinitialize e d t st) =
     pf st @ [DrawAllFromDistribution d, SetResamplingMode RESAMPLE_NEFF, ResetTimer]"
  "mm (reinitialize e d t st) = reset (mm st)"
  "om (reinitialize e d t st) = om st"
  by (simp_all add: reinitialize_def)

lemma reinitialize_out:
  "\<exists>arr bp post. out (reinitialize e d t st) =
       out st @ PublishPoseArray arr # PublishPose bp # post \<and> ps_stamp bp = t"
proof -
  let ?st1 = "st\<lparr>pf := pf st @ [DrawAllFromDistribution d, SetResamplingMode RESAMPLE_NEFF, ResetTimer],
           mm := reset (mm st),
           initialized := True, receivedSensorData := True, firstRun := True\<rparr>"
  from publishPoseEstimate_out [of e t ?st1] show ?thesis
    by (auto simp add: reinitialize_def)
qed

lemma scan_epilogue_fields [simp]:
  "cfg (scan_epilogue e msg p st) = cfg st"
  "initialized (scan_epilogue e msg p st) = initialized st"
  "receivedSensorData (scan_epilogue e msg p st) = receivedSensorData st"
  "\<not> firstRun (scan_epilogue e msg p st)"
  "lastLaserTime (scan_epilogue e msg p st) = scan_stamp msg"
  "lastLocalizedPose (scan_epilogue e msg p st) = lastLocalizedPose st"
  "pf (scan_epilogue e msg p st) = pf st"
  "mm (scan_epilogue e msg p st) = setLastOdomPose p (mm st)"
  "om (scan_epilogue e msg p st) = om st"
  by (simp_all add: scan_epilogue_def Let_def)

lemma scan_rejected_uninitialized:
  "\<not> initialized st \<Longrightarrow> scanCallback e msg st = Inr (st\<lparr>out := out st @ [Warn_NotInitialized]\<rparr>)"
  by (simp add: scanCallback_def)

lemma scan_first_run:
  "accepted e msg st \<Longrightarrow> firstRun st \<Longrightarrow> lookupOdomPose e (scan_stamp msg) = Some p \<Longrightarrow>
   scanCallback e msg st =
     Inr (scan_epilogue e msg p (st\<lparr>lastLocalizedPose := ps_pose p\<rparr>))"
  by (auto simp add: scanCallback_def accepted_def Let_def)

lemma scan_drift:
  "accepted e msg st \<Longrightarrow> \<not> firstRun st \<Longrightarrow> lookupOdomPose e (scan_stamp msg) = Some p \<Longrightarrow>
   \<not> takes_fused st p \<Longrightarrow>
   scanCallback e msg st =
     Inr (scan_epilogue e msg p
       (st\<lparr>pf := pf st @ [Drift (toSec (ps_stamp p - ps_stamp (getLastOdomPose (mm st))))]\<rparr>))"
  by (auto simp add: scanCallback_def accepted_def takes_fused_def Let_def)

lemma scan_fused:
  "accepted e msg st \<Longrightarrow> lookupOdomPose e (scan_stamp msg) = Some p \<Longrightarrow>
   takes_fused st p \<Longrightarrow>
   scanCallback e msg st =
     (case fused_update e msg p (toSec (ps_stamp p - ps_stamp (getLastOdomPose (mm st)))) st of
        Inl err \<Rightarrow> Inl err
      | Inr None \<Rightarrow> Inr st
      | Inr (Some st') \<Rightarrow> Inr (scan_epilogue e msg p st'))"
  by (auto simp add: scanCallback_def accepted_def takes_fused_def Let_def)

lemma prepare_ok:
  "sampler_ok e c msg \<Longrightarrow>
   \<exists>pc rs. prepareLaserPointCloud c (uniformSampling e) msg = Inr (pc, rs) \<and>
     pc_frame_id pc = scan_frame_id msg"
  by (simp add: sampler_ok_def prepareLaserPointCloud_def filterBeams_eq Let_def)

lemma fused_update_unavailable:
  "sampler_ok e (cfg st) msg \<Longrightarrow>
   lookupTargetToBaseTransform e (scan_frame_id msg) (scan_stamp msg) = None \<Longrightarrow>
   fused_update e msg p dt st = Inr None"
proof -
  assume ok: "sampler_ok e (cfg st) msg"
    and none: "lookupTargetToBaseTransform e (scan_frame_id msg) (scan_stamp msg) = None"
  from prepare_ok [OF ok] obtain pc rs
    where "prepareLaserPointCloud (cfg st) (uniformSampling e) msg = Inr (pc, rs)"
      and "pc_frame_id pc = scan_frame_id msg"
    by blast
  with none show ?thesis by (simp add: fused_update_def)
qed

lemma fused_update_done:
  assumes ok: "sampler_ok e (cfg st) msg"
    and some: "lookupTargetToBaseTransform e (scan_frame_id msg) (scan_stamp msg) = Some s"
  shows "\<exists>st'. fused_update e msg p dt st = Inr (Some st') \<and>
     pf st' = pf st @ [SetObservationModel, Filter dt] \<and>
     lastLocalizedPose st' = ps_pose p \<and> receivedSensorData st' \<and>
     cfg st' = cfg st \<and> initialized st' = initialized st \<and> firstRun st' = firstRun st \<and>
     mm st' = mm st"
proof -
  from prepare_ok [OF ok] obtain pc rs
    where "prepareLaserPointCloud (cfg st) (uniformSampling e) msg = Inr (pc, rs)"
      and "pc_frame_id pc = scan_frame_id msg"
    by blast
  with some show ?thesis by (simp add: fused_update_def Let_def)
qed

lemma fused_update_flags:
  "fused_update e msg p dt st = Inr (Some st') \<Longrightarrow>
   receivedSensorData st' \<and> initialized st' = initialized st"
  by (auto simp add: fused_update_def Let_def split: sum.splits option.splits prod.splits if_splits)

lemma scanCallback_flags:
  assumes "scanCallback e msg st = Inr st'"
  shows "initialized st' = initialized st \<and> (receivedSensorData st \<longrightarrow> receivedSensorData st')"
proof (cases "accepted e msg st")
  case False
  with assms show ?thesis
    by (auto simp add: scanCallback_def accepted_def Let_def split: if_splits option.splits)
next
  case True
  then obtain p where p: "lookupOdomPose e (scan_stamp msg) = Some p"
    by (auto simp add: accepted_def)
  show ?thesis
  proof (cases "firstRun st")
    case True
    with scan_first_run [OF \<open>accepted e msg st\<close> True p] assms show ?thesis by auto
  next
    case False
    show ?thesis
    proof (cases "takes_fused st p")
      case False
      with scan_drift [OF \<open>accepted e msg st\<close> \<open>\<not> firstRun st\<close> p False] assms
      show ?thesis by auto
    next
      case True
      from scan_fused [OF \<open>accepted e msg st\<close> p True] assms fused_update_flags [of e msg p _ st]
      show ?thesis
        by (auto split: sum.splits option.splits)
    qed
  qed
qed

lemma reachable_receivedSensorData:
  "reachable st \<Longrightarrow> initialized st \<Longrightarrow> receivedSensorData st"
proof (induction rule: reachable.induct)
  case (constructed c)
  then show ?case by (simp add: Particles_def)
next
  case (scan st e msg st')
  with scanCallback_flags [OF scan.hyps(2)] show ?case by simp
next
  case (timer st t)
  then show ?case by (simp add: latestTransformTimerCallback_def)
next
  case (initialPose st e imsg)
  show ?case by (simp add: initialPoseCallback_def Let_def)
next
  case (globalLocalization st e)
  show ?case by (simp add: globalLocalizationCallback_def)
next
  case (initialPoseSrv st e)
  show ?case by (simp add: initialPoseSrvCallback_def Let_def)
qed

text \<open>
  C6: in every state the node can reach, once it is initialised (tracking), a scan stamped
  strictly before the last processed scan is rejected with the warning and nothing else
  happens: the callback returns the state it was given with the warning appended to its
  output, so the particle set, the last odometry pose, the last localized pose and the
  last laser time are the ones from before.
\<close>

theorem stale_scan_rejected:
  assumes "reachable st" and "initialized st" and "scan_stamp msg < lastLaserTime st"
  shows "scanCallback e msg st =
     Inr (st\<lparr>out := out st @ [Warn_OlderThanPrevious (toSec (scan_stamp msg - lastLaserTime st))]\<rparr>)"
proof -
  have "receivedSensorData st"
    using assms(1,2) by (rule reachable_receivedSensorData)
  moreover have "toSec (scan_stamp msg - lastLaserTime st) < 0"
    using assms(3) by (simp add: toSec_def)
  ultimately show ?thesis
    using assms(2) by (simp add: scanCallback_def Let_def)
qed

section \<open>Particle filter node: the example run\<close>

lemma st_init_fields:
  "initialized st_init" "receivedSensorData st_init" "firstRun st_init"
  "lastLaserTime st_init = 0" "cfg st_init = default_params False"
  "pf st_init = [DrawAllFromDistribution Uniform, SetResamplingMode RESAMPLE_NEFF, ResetTimer]"
  by (simp_all add: st_init_def globalLocalizationCallback_def Particles_def)

lemma env0_odom: "lookupOdomPose env0 t = Some (odom_at t)"
  by (simp add: env0_def)

lemma scan0_stamp: "scan_stamp scan0 = 2000000000"
  by (simp add: scan0_def)

lemma st_init_accepts: "accepted env0 scan0 st_init"
  by (simp add: accepted_def st_init_fields env0_odom scan0_stamp toSec_def)

lemma st_tracking_step: "scanCallback env0 scan0 st_init = Inr st_tracking"
  using scan_first_run [OF st_init_accepts st_init_fields(3), of "odom_at 2000000000"]
  by (simp add: env0_odom scan0_stamp st_tracking_def odom_at_def)

lemma st_tracking_reachable: "reachable st_tracking"
proof -
  have "reachable (Particles (default_params False))"
    by (rule reachable.constructed)
  then have "reachable st_init"
    unfolding st_init_def by (rule reachable.globalLocalization)
  then show ?thesis
    using st_tracking_step by (rule reachable.scan)
qed

lemma st_tracking_fields:
  "initialized st_tracking" "receivedSensorData st_tracking" "\<not> firstRun st_tracking"
  "lastLaserTime st_tracking = 2000000000" "cfg st_tracking = default_params False"
  "pf st_tracking = [DrawAllFromDistribution Uniform, SetResamplingMode RESAMPLE_NEFF, ResetTimer]"
  "lastLocalizedPose st_tracking = origin_pose"
  "getLastOdomPose (mm st_tracking) = odom_at 2000000000"
  by (simp_all add: st_tracking_def st_init_fields scan0_stamp getLastOdomPose_def
      setLastOdomPose_def)

text \<open>The stale-scan rejection at work: \<open>scan_old\<close> arrives after \<open>scan0\<close> was processed.\<close>

theorem stale_scan_rejected_witness:
  "reachable st_tracking \<and> initialized st_tracking \<and>
   scan_stamp scan_old < lastLaserTime st_tracking \<and>
   scanCallback env0 scan_old st_tracking =
     Inr (st_tracking\<lparr>out := out st_tracking @ [Warn_OlderThanPrevious (- 1)]\<rparr>)"
proof -
  have h: "scan_stamp scan_old < lastLaserTime st_tracking"
    by (simp add: scan_old_def st_tracking_fields)
  have "toSec (scan_stamp scan_old - lastLaserTime st_tracking) = - 1"
    by (simp add: scan_old_def st_tracking_fields toSec_def)
  with stale_scan_rejected [OF st_tracking_reachable st_tracking_fields(1) h, of env0]
  show ?thesis
    using st_tracking_reachable st_tracking_fields(1) h by simp
qed

lemma isAboveMotionThreshold_cong:
  "lastLocalizedPose st' = lastLocalizedPose st \<Longrightarrow> cfg st' = cfg st \<Longrightarrow>
   isAboveMotionThreshold st' p = isAboveMotionThreshold st p"
  by (simp add: isAboveMotionThreshold_def)

lemma run_scans_append:
  "run_scans st xs = Inr st' \<Longrightarrow> run_scans st (xs @ ys) = run_scans st' ys"
  by (induction st xs rule: run_scans.induct) (auto split: sum.splits)

lemma quiet_run:
  assumes "initialized st" "receivedSensorData st" "\<not> firstRun st"
    and "map (\<lambda>(e, m). lookupOdomPose e (scan_stamp m)) xs = map Some os"
    and "sorted (lastLaserTime st # map (\<lambda>(e, m). scan_stamp m) xs)"
    and "\<forall>p \<in> set os. \<not> isAboveMotionThreshold st p"
  shows "\<exists>st'. run_scans st xs = Inr st' \<and>
     pf st' = pf st @ drift_calls (ps_stamp (getLastOdomPose (mm st))) os \<and>
     lastLocalizedPose st' = lastLocalizedPose st \<and> cfg st' = cfg st \<and>
     initialized st' \<and> receivedSensorData st' \<and> \<not> firstRun st' \<and>
     lastLaserTime st' = last (lastLaserTime st # map (\<lambda>(e, m). scan_stamp m) xs) \<and>
     getLastOdomPose (mm st') = last (getLastOdomPose (mm st) # os)"
  using assms
proof (induction xs arbitrary: st os)
  case Nil
  then show ?case by simp
next
  case (Cons x xs)
  obtain e m where x: "x = (e, m)" by (cases x)
  from Cons.prems(4) x obtain p ps where os: "os = p # ps"
    and p: "lookupOdomPose e (scan_stamp m) = Some p"
    and rest: "map (\<lambda>(e, m). lookupOdomPose e (scan_stamp m)) xs = map Some ps"
    by (cases os) auto
  from Cons.prems(5) x have le: "lastLaserTime st \<le> scan_stamp m"
    and sorted': "sorted (scan_stamp m # map (\<lambda>(e, m). scan_stamp m) xs)"
    by simp_all
  have acc: "accepted e m st"
    using Cons.prems(1) le p by (simp add: accepted_def toSec_def)
  have nf: "\<not> takes_fused st p"
    using Cons.prems(2,6) os by (simp add: takes_fused_def)
  let ?st1 = "scan_epilogue e m p
       (st\<lparr>pf := pf st @ [Drift (toSec (ps_stamp p - ps_stamp (getLastOdomPose (mm st))))]\<rparr>)"
  have step: "scanCallback e m st = Inr ?st1"
    by (rule scan_drift [OF acc Cons.prems(3) p nf])
  have below: "\<forall>q \<in> set ps. \<not> isAboveMotionThreshold ?st1 q"
    using Cons.prems(6) os isAboveMotionThreshold_cong [of ?st1 st] by simp
  have "\<exists>st'. run_scans ?st1 xs = Inr st' \<and>
     pf st' = pf ?st1 @ drift_calls (ps_stamp (getLastOdomPose (mm ?st1))) ps \<and>
     lastLocalizedPose st' = lastLocalizedPose ?st1 \<and> cfg st' = cfg ?st1 \<and>
     initialized st' \<and> receivedSensorData st' \<and> \<not> firstRun st' \<and>
     lastLaserTime st' = last (lastLaserTime ?st1 # map (\<lambda>(e, m). scan_stamp m) xs) \<and>
     getLastOdomPose (mm st') = last (getLastOdomPose (mm ?st1) # ps)"
    using Cons.prems(1,2) rest sorted' below
    by (intro Cons.IH) simp_all
  then obtain st' where r: "run_scans ?st1 xs = Inr st'"
    and f: "pf st' = pf ?st1 @ drift_calls (ps_stamp (getLastOdomPose (mm ?st1))) ps"
    and others: "lastLocalizedPose st' = lastLocalizedPose ?st1" "cfg st' = cfg ?st1"
      "initialized st'" "receivedSensorData st'" "\<not> firstRun st'"
      "lastLaserTime st' = last (lastLaserTime ?st1 # map (\<lambda>(e, m). scan_stamp m) xs)"
      "getLastOdomPose (mm st') = last (getLastOdomPose (mm ?st1) # ps)"
    by blast
  have "run_scans st (x # xs) = Inr st'"
    using step r x by simp
  moreover have "pf st' = pf st @ drift_calls (ps_stamp (getLastOdomPose (mm st))) os"
    using f os by (simp add: getLastOdomPose_def setLastOdomPose_def)
  moreover have "lastLaserTime st' = last (lastLaserTime st # map (\<lambda>(e, m). scan_stamp m) (x # xs))"
    using others(6) x by simp
  moreover have "getLastOdomPose (mm st') = last (getLastOdomPose (mm st) # os)"
    using others(7) os by (simp add: getLastOdomPose_def setLastOdomPose_def)
  ultimately show ?case
    using others(1-5) by simp
qed

lemma scan_fused_done:
  assumes acc: "accepted e m st" and p: "lookupOdomPose e (scan_stamp m) = Some p"
    and fused: "takes_fused st p" and ok: "sampler_ok e (cfg st) m"
    and tr: "lookupTargetToBaseTransform e (scan_frame_id m) (scan_stamp m) = Some s"
  shows "\<exists>st'. scanCallback e m st = Inr st' \<and>
     pf st' = pf st @ [SetObservationModel,
                       Filter (toSec (ps_stamp p - ps_stamp (getLastOdomPose (mm st))))] \<and>
     lastLocalizedPose st' = ps_pose p \<and> getLastOdomPose (mm st') = p \<and>
     \<not> firstRun st' \<and> lastLaserTime st' = scan_stamp m"
proof -
  let ?dt = "toSec (ps_stamp p - ps_stamp (getLastOdomPose (mm st)))"
  from fused_update_done [OF ok tr, of p ?dt] obtain st1
    where f: "fused_update e m p ?dt st = Inr (Some st1)"
      and "pf st1 = pf st @ [SetObservationModel, Filter ?dt]"
      and "lastLocalizedPose st1 = ps_pose p"
    by blast
  then show ?thesis
    using scan_fused [OF acc p fused]
    by (simp add: getLastOdomPose_def setLastOdomPose_def)
qed

text \<open>
  C1, as the code has it: after an initialization event (\<open>reinitialize\<close> is the body all
  three entry points share), take any run of scans that are accepted (odometry resolves,
  stamps do not go back) and whose odometry poses stay below both thresholds relative to
  the pose of the first scan. The first scan triggers neither a fused update nor a drift
  step: it only records its odometry pose as the last localized pose. Every later scan of
  the run triggers exactly one drift step and no fused update: the calls made on the
  particle filter during the run are the drift calls, one per scan after the first.
\<close>

theorem motion_gate_after_initialization:
  assumes odom: "map (\<lambda>(e, m). lookupOdomPose e (scan_stamp m)) ((e1, m1) # rest) = map Some (o1 # os)"
    and order: "sorted (lastLaserTime s # map (\<lambda>(e, m). scan_stamp m) ((e1, m1) # rest))"
    and below: "\<forall>p \<in> set os. \<not> isAboveMotionThreshold (s\<lparr>lastLocalizedPose := ps_pose o1\<rparr>) p"
  shows "\<exists>st'. run_scans (reinitialize e0 d t0 s) ((e1, m1) # rest) = Inr st' \<and>
     pf st' = pf (reinitialize e0 d t0 s) @ drift_calls (ps_stamp o1) os \<and>
     lastLocalizedPose st' = ps_pose o1"
proof -
  let ?st0 = "reinitialize e0 d t0 s"
  let ?st1 = "scan_epilogue e1 m1 o1 (?st0\<lparr>lastLocalizedPose := ps_pose o1\<rparr>)"
  from odom have o1: "lookupOdomPose e1 (scan_stamp m1) = Some o1"
    and rest: "map (\<lambda>(e, m). lookupOdomPose e (scan_stamp m)) rest = map Some os"
    by simp_all
  from order have le: "lastLaserTime s \<le> scan_stamp m1"
    and sorted': "sorted (scan_stamp m1 # map (\<lambda>(e, m). scan_stamp m) rest)"
    by simp_all
  have acc: "accepted e1 m1 ?st0"
    using le o1 by (simp add: accepted_def toSec_def)
  have first: "scanCallback e1 m1 ?st0 = Inr ?st1"
    using acc _ o1 by (rule scan_first_run) simp
  have below1: "\<forall>p \<in> set os. \<not> isAboveMotionThreshold ?st1 p"
    using below isAboveMotionThreshold_cong [of ?st1 "s\<lparr>lastLocalizedPose := ps_pose o1\<rparr>"]
    by simp
  have "\<exists>st'. run_scans ?st1 rest = Inr st' \<and>
     pf st' = pf ?st1 @ drift_calls (ps_stamp (getLastOdomPose (mm ?st1))) os \<and>
     lastLocalizedPose st' = lastLocalizedPose ?st1 \<and> cfg st' = cfg ?st1 \<and>
     initialized st' \<and> receivedSensorData st' \<and> \<not> firstRun st' \<and>
     lastLaserTime st' = last (lastLaserTime ?st1 # map (\<lambda>(e, m). scan_stamp m) rest) \<and>
     getLastOdomPose (mm st') = last (getLastOdomPose (mm ?st1) # os)"
    using rest sorted' below1 by (intro quiet_run) simp_all
  then obtain st' where run1: "run_scans ?st1 rest = Inr st'"
    and f: "pf st' = pf ?st1 @ drift_calls (ps_stamp (getLastOdomPose (mm ?st1))) os"
    and loc: "lastLocalizedPose st' = lastLocalizedPose ?st1"
    by blast
  have run: "run_scans ?st0 ((e1, m1) # rest) = Inr st'"
    using first run1 by simp
  have calls: "pf st' = pf ?st0 @ drift_calls (ps_stamp o1) os"
    using f by (simp add: getLastOdomPose_def setLastOdomPose_def)
  have loc': "lastLocalizedPose st' = ps_pose o1"
    using loc by simp
  from run calls loc' show ?thesis by blast
qed

lemma rest_below:
  "lastLocalizedPose st = origin_pose \<Longrightarrow> cfg st = default_params pu \<Longrightarrow>
   \<not> isAboveMotionThreshold st (odom_at t)"
  by (simp add: isAboveMotionThreshold_def odomTransform_def odom_at_def origin_pose_def
      pose_to_tf_def Transform_def setRotation_def inverseTimes_def transposeTimes_def
      vec_mat_def vec_minus_def vec_length_def dot_def getRPY_def atan2_def length2_def
      Vector3_def Quaternion_def default_params_def Let_def)

lemma moved_above:
  "lastLocalizedPose st = origin_pose \<Longrightarrow> cfg st = default_params pu \<Longrightarrow>
   isAboveMotionThreshold st (moved_at t)"
  by (simp add: isAboveMotionThreshold_def odomTransform_def moved_at_def origin_pose_def
      pose_to_tf_def Transform_def setRotation_def inverseTimes_def transposeTimes_def
      vec_mat_def vec_minus_def vec_length_def dot_def getRPY_def atan2_def length2_def
      Vector3_def Quaternion_def default_params_def Let_def)

lemma retained_scan0:
  "ranges m = ranges scan0 \<Longrightarrow> range_min m = range_min scan0 \<Longrightarrow>
   retained (default_params pu) m = [1, 3]"
proof -
  assume r: "ranges m = ranges scan0" and m: "range_min m = range_min scan0"
  have "[0..<length (ranges m)] = [0, 1, 2, 3]"
    by (simp add: r scan0_def upt_conv_Cons)
  then show ?thesis
    by (simp add: retained_def in_range_def r m scan0_def default_params_def)
qed

lemma sampler_ok_example:
  "uniformSampling e = pick_second \<Longrightarrow> ranges m = ranges scan0 \<Longrightarrow>
   range_min m = range_min scan0 \<Longrightarrow> sampler_ok e (default_params pu) m"
  by (simp add: sampler_ok_def retained_scan0 pick_second_def)

text \<open>
  C1 as stated fails on the first scan: after a global localization the scan \<open>scan0\<close> is
  accepted, and the calls made on the particle filter are the same three as before it;
  no filter step was triggered.
\<close>

theorem first_scan_after_initialization_not_fused:
  "accepted env0 scan0 st_init \<and>
   pf st_init = [DrawAllFromDistribution Uniform, SetResamplingMode RESAMPLE_NEFF, ResetTimer] \<and>
   map_sum id pf (scanCallback env0 scan0 st_init) =
     Inr [DrawAllFromDistribution Uniform, SetResamplingMode RESAMPLE_NEFF, ResetTimer]"
  using st_init_accepts st_tracking_step st_init_fields(6) st_tracking_fields(6) by simp

text \<open>
  The motion gate on the example run: the first scan leaves the filter alone, and the
  second, one second later with the vehicle at rest, drifts.
\<close>

theorem motion_gate_after_initialization_witness:
  "map (\<lambda>(e, m). lookupOdomPose e (scan_stamp m)) [(env0, scan0), (env0, scan1)] =
     map Some [odom_at 2000000000, odom_at 3000000000] \<and>
   sorted (lastLaserTime (Particles (default_params False)) #
     map (\<lambda>(e, m). scan_stamp m) [(env0, scan0), (env0, scan1)]) \<and>
   \<not> isAboveMotionThreshold
       ((Particles (default_params False))\<lparr>lastLocalizedPose := ps_pose (odom_at 2000000000)\<rparr>)
       (odom_at 3000000000) \<and>
   map_sum id pf (run_scans st_init [(env0, scan0)]) =
     Inr [DrawAllFromDistribution Uniform, SetResamplingMode RESAMPLE_NEFF, ResetTimer] \<and>
   map_sum id pf (run_scans st_init [(env0, scan0), (env0, scan1)]) =
     Inr [DrawAllFromDistribution Uniform, SetResamplingMode RESAMPLE_NEFF, ResetTimer, Drift 1]"
proof -
  let ?s = "Particles (default_params False)"
  have init: "reinitialize env0 Uniform (now env0) ?s = st_init"
    by (simp add: st_init_def globalLocalizationCallback_def)
  have odom: "map (\<lambda>(e, m). lookupOdomPose e (scan_stamp m)) [(env0, scan0), (env0, scan1)] =
      map Some [odom_at 2000000000, odom_at 3000000000]"
    by (simp add: env0_odom scan0_stamp scan1_def)
  have order: "sorted (lastLaserTime ?s # map (\<lambda>(e, m). scan_stamp m) [(env0, scan0), (env0, scan1)])"
    by (simp add: Particles_def scan0_stamp scan1_def)
  have b: "\<not> isAboveMotionThreshold (?s\<lparr>lastLocalizedPose := ps_pose (odom_at 2000000000)\<rparr>)
      (odom_at 3000000000)"
    by (rule rest_below [where pu = False]) (simp_all add: odom_at_def Particles_def)
  then have below: "\<forall>p \<in> set [odom_at 3000000000].
      \<not> isAboveMotionThreshold (?s\<lparr>lastLocalizedPose := ps_pose (odom_at 2000000000)\<rparr>) p"
    by simp
  have odom1: "map (\<lambda>(e, m). lookupOdomPose e (scan_stamp m)) [(env0, scan0)] =
      map Some [odom_at 2000000000]"
    by (simp add: env0_odom scan0_stamp)
  have order1: "sorted (lastLaserTime ?s # map (\<lambda>(e, m). scan_stamp m) [(env0, scan0)])"
    by (simp add: Particles_def scan0_stamp)
  have below1: "\<forall>p \<in> set [].
      \<not> isAboveMotionThreshold (?s\<lparr>lastLocalizedPose := ps_pose (odom_at 2000000000)\<rparr>) p"
    by simp
  from motion_gate_after_initialization [OF odom1 order1 below1, of env0 Uniform "now env0"]
  obtain st1 where run1: "run_scans st_init [(env0, scan0)] = Inr st1"
    and calls1: "pf st1 = pf st_init @ drift_calls (ps_stamp (odom_at 2000000000)) []"
    unfolding init by blast
  from motion_gate_after_initialization [OF odom order below, of env0 Uniform "now env0"]
  obtain st2 where run2: "run_scans st_init [(env0, scan0), (env0, scan1)] = Inr st2"
    and calls2: "pf st2 = pf st_init @ drift_calls (ps_stamp (odom_at 2000000000)) [odom_at 3000000000]"
    unfolding init by blast
  have "pf st1 = [DrawAllFromDistribution Uniform, SetResamplingMode RESAMPLE_NEFF, ResetTimer]"
    using calls1 by (simp add: st_init_fields)
  moreover have "pf st2 =
      [DrawAllFromDistribution Uniform, SetResamplingMode RESAMPLE_NEFF, ResetTimer, Drift 1]"
    using calls2 by (simp add: st_init_fields odom_at_def toSec_def)
  ultimately show ?thesis
    using run1 run2 odom order b by simp
qed

lemma env0_worldToMap: "worldToMap env0 t st = None"
  by (simp add: worldToMap_def env0_def Let_def)

lemma env_moved_fields:
  "lookupOdomPose env_moved t = Some (moved_at t)"
  "lookupTargetToBaseTransform env_moved f t = None"
  "uniformSampling env_moved = pick_second"
  "lookupOdomPose env_moved_tf t = Some (moved_at t)"
  "lookupTargetToBaseTransform env_moved_tf f t =
     Some \<lparr>translation = Vector3 0 0 0, rotation = Quaternion 0 0 0 1\<rparr>"
  "uniformSampling env_moved_tf = pick_second"
  by (simp_all add: env_moved_def env_moved_tf_def env0_def)

lemma st_tracking_accepts_scan1:
  "lookupOdomPose e (scan_stamp scan1) \<noteq> None \<Longrightarrow> accepted e scan1 st_tracking"
  by (simp add: accepted_def st_tracking_fields scan1_def toSec_def)

lemma st_tracking_fused_when_moved: "takes_fused st_tracking (moved_at t)"
  using moved_above [of st_tracking False t]
  by (simp add: takes_fused_def st_tracking_fields)

lemma sampler_ok_scan1:
  "uniformSampling e = pick_second \<Longrightarrow> sampler_ok e (cfg st_tracking) scan1"
  using sampler_ok_example [of e scan1 False]
  by (simp add: st_tracking_fields scan1_def)

text \<open>
  C4 as stated fails when the fused branch returns early: \<open>scan1\<close> passes the three
  rejection checks in the tracking state of the example run, the vehicle has moved, the
  sensor-to-base transform does not resolve, and the stored last odometry pose is still
  the one of the previous scan.
\<close>

theorem last_odom_pose_not_advanced_on_early_return:
  "accepted env_moved scan1 st_tracking \<and>
   lookupOdomPose env_moved (scan_stamp scan1) = Some (moved_at 3000000000) \<and>
   scanCallback env_moved scan1 st_tracking = Inr st_tracking \<and>
   getLastOdomPose (mm st_tracking) = odom_at 2000000000 \<and>
   odom_at 2000000000 \<noteq> moved_at 3000000000"
proof -
  have acc: "accepted env_moved scan1 st_tracking"
    by (rule st_tracking_accepts_scan1) (simp add: env_moved_fields)
  have p: "lookupOdomPose env_moved (scan_stamp scan1) = Some (moved_at 3000000000)"
    by (simp add: env_moved_fields scan1_def)
  have "fused_update env_moved scan1 (moved_at 3000000000) dt st_tracking = Inr None" for dt
    by (rule fused_update_unavailable)
      (simp_all add: sampler_ok_scan1 env_moved_fields)
  then have "scanCallback env_moved scan1 st_tracking = Inr st_tracking"
    using scan_fused [OF acc p st_tracking_fused_when_moved] by simp
  moreover have "odom_at 2000000000 \<noteq> moved_at 3000000000"
    by (simp add: odom_at_def moved_at_def)
  ultimately show ?thesis
    using acc p st_tracking_fields(8) by simp
qed

text \<open>
  C4, as the code has it: a scan that passes the three rejection checks and, where the
  fused branch is the one taken, finds the sensor-to-base transform (the downsampling
  primitive keeping its contract), makes the callback return with the last odometry pose
  advanced to the scan's odometry pose, whichever of the three branches ran.
\<close>

theorem last_odom_pose_advanced:
  assumes acc: "accepted e msg st"
    and p: "lookupOdomPose e (scan_stamp msg) = Some p"
    and fused: "takes_fused st p \<Longrightarrow>
      sampler_ok e (cfg st) msg \<and>
      lookupTargetToBaseTransform e (scan_frame_id msg) (scan_stamp msg) \<noteq> None"
  shows "\<exists>st'. scanCallback e msg st = Inr st' \<and> getLastOdomPose (mm st') = p \<and>
     \<not> firstRun st' \<and> lastLaserTime st' = scan_stamp msg"
proof (cases "firstRun st")
  case True
  from scan_first_run [OF acc True p] show ?thesis
    by (simp add: getLastOdomPose_def setLastOdomPose_def)
next
  case False
  show ?thesis
  proof (cases "takes_fused st p")
    case False
    from scan_drift [OF acc \<open>\<not> firstRun st\<close> p False] show ?thesis
      by (simp add: getLastOdomPose_def setLastOdomPose_def)
  next
    case True
    with fused obtain tr where ok: "sampler_ok e (cfg st) msg"
      and tr: "lookupTargetToBaseTransform e (scan_frame_id msg) (scan_stamp msg) = Some tr"
      by auto
    from scan_fused_done [OF acc p True ok tr] show ?thesis by blast
  qed
qed

text \<open>The fused branch of the example run, with the transform available.\<close>

theorem last_odom_pose_advanced_witness:
  "accepted env_moved_tf scan1 st_tracking \<and>
   lookupOdomPose env_moved_tf (scan_stamp scan1) = Some (moved_at 3000000000) \<and>
   takes_fused st_tracking (moved_at 3000000000) \<and>
   sampler_ok env_moved_tf (cfg st_tracking) scan1 \<and>
   lookupTargetToBaseTransform env_moved_tf (scan_frame_id scan1) (scan_stamp scan1) \<noteq> None \<and>
   map_sum id (\<lambda>s. getLastOdomPose (mm s)) (scanCallback env_moved_tf scan1 st_tracking) =
     Inr (moved_at 3000000000)"
proof -
  have acc: "accepted env_moved_tf scan1 st_tracking"
    by (rule st_tracking_accepts_scan1) (simp add: env_moved_fields)
  have p: "lookupOdomPose env_moved_tf (scan_stamp scan1) = Some (moved_at 3000000000)"
    by (simp add: env_moved_fields scan1_def)
  have ok: "sampler_ok env_moved_tf (cfg st_tracking) scan1"
    by (rule sampler_ok_scan1) (simp add: env_moved_fields)
  have tr: "lookupTargetToBaseTransform env_moved_tf (scan_frame_id scan1) (scan_stamp scan1) \<noteq> None"
    by (simp add: env_moved_fields)
  from last_odom_pose_advanced [OF acc p] ok tr
  obtain st' where "scanCallback env_moved_tf scan1 st_tracking = Inr st'"
    and "getLastOdomPose (mm st') = moved_at 3000000000"
    by blast
  then show ?thesis
    using acc p ok tr st_tracking_fused_when_moved by simp
qed

lemma scan_epilogue_out:
  "\<exists>post. out (scan_epilogue e msg p st) = out st @ post"
proof (cases "publishUpdated (cfg st)")
  case True
  then show ?thesis by (simp add: scan_epilogue_def Let_def)
next
  case False
  let ?st1 = "st\<lparr>mm := setLastOdomPose p (mm st), firstRun := False, lastLaserTime := scan_stamp msg\<rparr>"
  from publishPoseEstimate_out [of e "scan_stamp msg" ?st1] False show ?thesis
    by (auto simp add: scan_epilogue_def Let_def)
qed

lemma scan_epilogue_publishes:
  "\<not> publishUpdated (cfg st) \<Longrightarrow>
   \<exists>arr bp post. out (scan_epilogue e msg p st) =
       out st @ PublishPoseArray arr # PublishPose bp # post \<and> ps_stamp bp = scan_stamp msg"
proof -
  assume np: "\<not> publishUpdated (cfg st)"
  let ?st1 = "st\<lparr>mm := setLastOdomPose p (mm st), firstRun := False, lastLaserTime := scan_stamp msg\<rparr>"
  from publishPoseEstimate_out [of e "scan_stamp msg" ?st1] np show ?thesis
    by (auto simp add: scan_epilogue_def Let_def)
qed

text \<open>
  C5: a transform that cannot be resolved is never fatal and changes no localization state.
  When the sensor-to-base lookup fails in the full fused branch the callback returns the
  state it was given. When the frame chain fails during publication, the pose array and the
  best pose have been published, the warning is issued, no transform is sent, and the
  particle set, the last localized pose, the movement model and the stored correction are
  the ones from before; the timer callback then broadcasts that stored correction again.
\<close>

theorem transform_failure_skips_cycle:
  "(accepted e msg st \<longrightarrow> lookupOdomPose e (scan_stamp msg) = Some p \<longrightarrow> takes_fused st p \<longrightarrow>
    sampler_ok e (cfg st) msg \<longrightarrow>
    lookupTargetToBaseTransform e (scan_frame_id msg) (scan_stamp msg) = None \<longrightarrow>
      scanCallback e msg st = Inr st) \<and>
   (worldToMap e t st = None \<longrightarrow>
      pf (publishPoseEstimate e t st) = pf st \<and>
      lastLocalizedPose (publishPoseEstimate e t st) = lastLocalizedPose st \<and>
      latestTransform (publishPoseEstimate e t st) = latestTransform st \<and>
      mm (publishPoseEstimate e t st) = mm st \<and>
      (\<exists>arr bp. out (publishPoseEstimate e t st) =
         out st @ [PublishPoseArray arr, PublishPose bp, Warn_FailedWorldToMap]) \<and>
      out (latestTransformTimerCallback tm (publishPoseEstimate e t st)) =
        out (publishPoseEstimate e t st) @
          [SendTransform (mapFrameID (cfg st))
             (tm + durationFromSec (transformTolerance (cfg st)))
             (worldFrameID (cfg st)) (inverse_tf (latestTransform st))])"
proof -
  have a: "scanCallback e msg st = Inr st"
    if acc: "accepted e msg st" and p: "lookupOdomPose e (scan_stamp msg) = Some p"
      and fused: "takes_fused st p" and ok: "sampler_ok e (cfg st) msg"
      and none: "lookupTargetToBaseTransform e (scan_frame_id msg) (scan_stamp msg) = None"
  proof -
    have "fused_update e msg p dt st = Inr None" for dt
      using ok none by (rule fused_update_unavailable)
    then show ?thesis
      using scan_fused [OF acc p fused] by simp
  qed
  have b: "latestTransform (publishPoseEstimate e t st) = latestTransform st \<and>
      (\<exists>arr bp. out (publishPoseEstimate e t st) =
         out st @ [PublishPoseArray arr, PublishPose bp, Warn_FailedWorldToMap])"
    if "worldToMap e t st = None"
    using that by (rule publishPoseEstimate_failed)
  have c: "out (latestTransformTimerCallback tm (publishPoseEstimate e t st)) =
        out (publishPoseEstimate e t st) @
          [SendTransform (mapFrameID (cfg st))
             (tm + durationFromSec (transformTolerance (cfg st)))
             (worldFrameID (cfg st)) (inverse_tf (latestTransform st))]"
    if "worldToMap e t st = None"
    using b [OF that] by (simp add: latestTransformTimerCallback_def)
  from a b c show ?thesis by simp
qed

text \<open>Both failures in the example run, where no transform ever resolves.\<close>

theorem transform_failure_skips_cycle_witness:
  "accepted env_moved scan1 st_tracking \<and>
   lookupOdomPose env_moved (scan_stamp scan1) = Some (moved_at 3000000000) \<and>
   takes_fused st_tracking (moved_at 3000000000) \<and>
   sampler_ok env_moved (cfg st_tracking) scan1 \<and>
   lookupTargetToBaseTransform env_moved (scan_frame_id scan1) (scan_stamp scan1) = None \<and>
   scanCallback env_moved scan1 st_tracking = Inr st_tracking \<and>
   worldToMap env0 5000000000 st_tracking = None \<and>
   pf (publishPoseEstimate env0 5000000000 st_tracking) =
     [DrawAllFromDistribution Uniform, SetResamplingMode RESAMPLE_NEFF, ResetTimer] \<and>
   lastLocalizedPose (publishPoseEstimate env0 5000000000 st_tracking) = origin_pose \<and>
   latestTransform (publishPoseEstimate env0 5000000000 st_tracking) = latestTransform st_tracking"
proof -
  have acc: "accepted env_moved scan1 st_tracking"
    by (rule st_tracking_accepts_scan1) (simp add: env_moved_fields)
  have p: "lookupOdomPose env_moved (scan_stamp scan1) = Some (moved_at 3000000000)"
    by (simp add: env_moved_fields scan1_def)
  have ok: "sampler_ok env_moved (cfg st_tracking) scan1"
    by (rule sampler_ok_scan1) (simp add: env_moved_fields)
  have none: "lookupTargetToBaseTransform env_moved (scan_frame_id scan1) (scan_stamp scan1) = None"
    by (simp add: env_moved_fields)
  note t1 = transform_failure_skips_cycle
    [where e = env_moved and msg = scan1 and st = st_tracking and p = "moved_at 3000000000"]
  note t2 = transform_failure_skips_cycle
    [where e = env0 and st = st_tracking and t = 5000000000]
  from t1 acc p st_tracking_fused_when_moved ok none
  have r1: "scanCallback env_moved scan1 st_tracking = Inr st_tracking"
    by blast
  from t2 env0_worldToMap [of 5000000000 st_tracking]
  have r2: "pf (publishPoseEstimate env0 5000000000 st_tracking) = pf st_tracking"
    "lastLocalizedPose (publishPoseEstimate env0 5000000000 st_tracking) = lastLocalizedPose st_tracking"
    "latestTransform (publishPoseEstimate env0 5000000000 st_tracking) = latestTransform st_tracking"
    by blast+
  show ?thesis
    using acc p st_tracking_fused_when_moved ok none r1 r2 env0_worldToMap [of 5000000000 st_tracking]
    by (simp add: st_tracking_fields)
qed

lemmas tf2_defs =
  odomTransform_def pose_to_tf_def Transform_def setRotation_def inverseTimes_def
  transposeTimes_def vec_mat_def vec_minus_def vec_length_def dot_def length2_def
  Vector3_def Quaternion_def

lemma rolled_rpy:
  "getRPY (m_basis (odomTransform origin_pose (ps_pose (rolled_at t)))) = (pi, 0, 0)"
  by (simp add: tf2_defs rolled_at_def origin_pose_def getRPY_def atan2_def Let_def)

lemma rolled_origin:
  "vec_length (m_origin (odomTransform origin_pose (ps_pose (rolled_at t)))) = 0"
  by (simp add: tf2_defs rolled_at_def origin_pose_def Let_def)

text \<open>
  C7 as stated fails for a rotation about the roll axis: relative to the last localized
  pose of the example run the odometry pose is rolled by \<open>pi\<close>, far beyond the rotation
  threshold of 0.4, and the motion gate stays closed.
\<close>

theorem roll_beyond_threshold_not_above:
  "lastLocalizedPose st_tracking = origin_pose \<and>
   getRPY (m_basis (odomTransform origin_pose (ps_pose (rolled_at 3000000000)))) = (pi, 0, 0) \<and>
   observationThresholdRotation (cfg st_tracking) < pi \<and>
   \<not> isAboveMotionThreshold st_tracking (rolled_at 3000000000)"
proof -
  have "(2 / 5 :: real) < pi"
    using pi_ge_two by linarith
  then have thr: "observationThresholdRotation (cfg st_tracking) < pi"
    by (simp add: st_tracking_fields default_params_def)
  have "\<not> isAboveMotionThreshold st_tracking (rolled_at 3000000000)"
    by (simp add: isAboveMotionThreshold_def st_tracking_fields rolled_rpy rolled_origin
        default_params_def)
  with thr show ?thesis
    by (simp add: st_tracking_fields rolled_rpy)
qed

text \<open>
  C7, as the code has it: the motion gate opens exactly when the translation since the last
  localized pose reaches the translation threshold or the yaw of the relative rotation
  reaches the rotation threshold. Roll and pitch are computed and not examined: with
  positive thresholds, a roll by any angle about the x axis, starting from the identity
  orientation and without translation, leaves it closed.
\<close>

theorem motion_gate_checks_translation_and_yaw:
  "(isAboveMotionThreshold st p \<longleftrightarrow>
      observationThresholdTranslation (cfg st) \<le>
        vec_length (m_origin (odomTransform (lastLocalizedPose st) (ps_pose p))) \<or>
      observationThresholdRotation (cfg st) \<le>
        \<bar>snd (snd (getRPY (m_basis (odomTransform (lastLocalizedPose st) (ps_pose p)))))\<bar>) \<and>
   (0 < observationThresholdTranslation (cfg st) \<longrightarrow>
    0 < observationThresholdRotation (cfg st) \<longrightarrow>
    lastLocalizedPose st = origin_pose \<longrightarrow>
    ps_pose p = \<lparr>position = Vector3 0 0 0,
                 orientation = Quaternion_axis_angle (Vector3 1 0 0) a\<rparr> \<longrightarrow>
      \<not> isAboveMotionThreshold st p)"
proof -
  have iff: "isAboveMotionThreshold st p \<longleftrightarrow>
      observationThresholdTranslation (cfg st) \<le>
        vec_length (m_origin (odomTransform (lastLocalizedPose st) (ps_pose p))) \<or>
      observationThresholdRotation (cfg st) \<le>
        \<bar>snd (snd (getRPY (m_basis (odomTransform (lastLocalizedPose st) (ps_pose p)))))\<bar>"
    by (simp add: isAboveMotionThreshold_def Let_def split: prod.split)
  have roll_only: "\<not> isAboveMotionThreshold st p"
    if thr: "0 < observationThresholdTranslation (cfg st)" "0 < observationThresholdRotation (cfg st)"
      and last: "lastLocalizedPose st = origin_pose"
      and pose: "ps_pose p = \<lparr>position = Vector3 0 0 0,
                 orientation = Quaternion_axis_angle (Vector3 1 0 0) a\<rparr>"
  proof -
    let ?t = "odomTransform (lastLocalizedPose st) (ps_pose p)"
    have one: "sin (a / 2) * sin (a / 2) + cos (a / 2) * cos (a / 2) = 1"
      using sin_cos_squared_add [of "a / 2"] by (simp add: power2_eq_square)
    have origin: "vec_length (m_origin ?t) = 0"
      by (simp add: tf2_defs last pose origin_pose_def Quaternion_axis_angle_def Let_def)
    have rows: "vx (m_el0 (m_basis ?t)) = 1" "vx (m_el1 (m_basis ?t)) = 0"
      "vx (m_el2 (m_basis ?t)) = 0"
      by (simp_all add: tf2_defs last pose origin_pose_def Quaternion_axis_angle_def Let_def one)
    have "snd (snd (getRPY (m_basis ?t))) = 0"
      by (simp add: getRPY_def rows atan2_def Let_def)
    with origin thr show ?thesis
      by (simp add: iff)
  qed
  from iff roll_only show ?thesis by blast
qed

text \<open>The motion gate on a quarter turn in yaw, and on a quarter roll.\<close>

theorem motion_gate_checks_translation_and_yaw_witness:
  "isAboveMotionThreshold st_tracking (yawed_at 3000000000) \<and>
   0 < observationThresholdTranslation (cfg st_tracking) \<and>
   0 < observationThresholdRotation (cfg st_tracking) \<and>
   lastLocalizedPose st_tracking = origin_pose \<and>
   \<not> isAboveMotionThreshold st_tracking
       \<lparr>ps_frame_id = ''world'', ps_stamp = 3000000000,
        ps_pose = \<lparr>position = Vector3 0 0 0,
                   orientation = Quaternion_axis_angle (Vector3 1 0 0) (pi / 2)\<rparr>\<rparr>"
proof -
  let ?q = "\<lparr>ps_frame_id = ''world'', ps_stamp = 3000000000,
        ps_pose = \<lparr>position = Vector3 0 0 0,
                   orientation = Quaternion_axis_angle (Vector3 1 0 0) (pi / 2)\<rparr>\<rparr>"
  have yaw: "snd (snd (getRPY (m_basis (odomTransform origin_pose
      (ps_pose (yawed_at 3000000000)))))) = pi / 2"
    by (simp add: tf2_defs yawed_at_def origin_pose_def getRPY_def atan2_def Let_def)
  have "(2 / 5 :: real) \<le> pi / 2"
    using pi_ge_two by linarith
  then have "observationThresholdRotation (cfg st_tracking) \<le>
      \<bar>snd (snd (getRPY (m_basis (odomTransform (lastLocalizedPose st_tracking)
      (ps_pose (yawed_at 3000000000))))))\<bar>"
    by (simp add: yaw st_tracking_fields default_params_def)
  with motion_gate_checks_translation_and_yaw [of st_tracking "yawed_at 3000000000"]
  have above: "isAboveMotionThreshold st_tracking (yawed_at 3000000000)"
    by blast
  have h: "0 < observationThresholdTranslation (cfg st_tracking)"
    "0 < observationThresholdRotation (cfg st_tracking)"
    "lastLocalizedPose st_tracking = origin_pose"
    "ps_pose ?q = \<lparr>position = Vector3 0 0 0,
                   orientation = Quaternion_axis_angle (Vector3 1 0 0) (pi / 2)\<rparr>"
    by (simp_all add: st_tracking_fields default_params_def)
  from motion_gate_checks_translation_and_yaw [of st_tracking ?q "pi / 2"] h
  have "\<not> isAboveMotionThreshold st_tracking ?q"
    by blast
  with above h(1-3) show ?thesis by simp
qed

lemma st_fused_step:
  "scanCallback env_moved_tf scan1 st_tracking = Inr st_fused"
  "lastLocalizedPose st_fused = ps_pose (moved_at 3000000000)"
  "lastLaserTime st_fused = 3000000000"
proof -
  have acc: "accepted env_moved_tf scan1 st_tracking"
    by (rule st_tracking_accepts_scan1) (simp add: env_moved_fields)
  have p: "lookupOdomPose env_moved_tf (scan_stamp scan1) = Some (moved_at 3000000000)"
    by (simp add: env_moved_fields scan1_def)
  have ok: "sampler_ok env_moved_tf (cfg st_tracking) scan1"
    by (rule sampler_ok_scan1) (simp add: env_moved_fields)
  have tr: "lookupTargetToBaseTransform env_moved_tf (scan_frame_id scan1) (scan_stamp scan1) =
      Some \<lparr>translation = Vector3 0 0 0, rotation = Quaternion 0 0 0 1\<rparr>"
    by (simp add: env_moved_fields)
  from scan_fused_done [OF acc p st_tracking_fused_when_moved ok tr] obtain st'
    where s: "scanCallback env_moved_tf scan1 st_tracking = Inr st'"
      and l: "lastLocalizedPose st' = ps_pose (moved_at 3000000000)"
      and t: "lastLaserTime st' = scan_stamp scan1"
    by blast
  from s have eq: "st_fused = st'"
    by (simp add: st_fused_def)
  show "scanCallback env_moved_tf scan1 st_tracking = Inr st_fused"
    using s eq by simp
  show "lastLocalizedPose st_fused = ps_pose (moved_at 3000000000)"
    using l eq by simp
  show "lastLaserTime st_fused = 3000000000"
    using t eq by (simp add: scan1_def)
qed

lemma gaussian_distribution_mean:
  "getEulerYPR e (normalize (getRotation e (m_basis tr))) = (y, p, r) \<Longrightarrow>
   gaussian_distribution e tr sd =
     Gaussian \<lparr>xPos = vx (m_origin tr), yPos = vy (m_origin tr), zPos = vz (m_origin tr),
               roll = y, pitch = p, yaw = r\<rparr> sd"
  by (simp add: gaussian_distribution_def)

lemma initialPoseCallback_fields [simp]:
  "lastLocalizedPose (initialPoseCallback e msg st) = lastLocalizedPose st"
  "mm (initialPoseCallback e msg st) = reset (mm st)"
  "initialized (initialPoseCallback e msg st)"
  "receivedSensorData (initialPoseCallback e msg st)"
  "firstRun (initialPoseCallback e msg st)"
  "lastLaserTime (initialPoseCallback e msg st) = lastLaserTime st"
  "pf (initialPoseCallback e msg st) =
     pf st @ [DrawAllFromDistribution
                (gaussian_distribution e (pose_to_tf (ps_pose msg)) (stdDevs (cfg st))),
              SetResamplingMode RESAMPLE_NEFF, ResetTimer]"
  by (simp_all add: initialPoseCallback_def Let_def)

lemma globalLocalizationCallback_fields [simp]:
  "lastLocalizedPose (globalLocalizationCallback e st) = lastLocalizedPose st"
  "mm (globalLocalizationCallback e st) = reset (mm st)"
  "initialized (globalLocalizationCallback e st)"
  "receivedSensorData (globalLocalizationCallback e st)"
  "firstRun (globalLocalizationCallback e st)"
  "lastLaserTime (globalLocalizationCallback e st) = lastLaserTime st"
  "cfg (globalLocalizationCallback e st) = cfg st"
  "pf (globalLocalizationCallback e st) =
     pf st @ [DrawAllFromDistribution Uniform, SetResamplingMode RESAMPLE_NEFF, ResetTimer]"
  by (simp_all add: globalLocalizationCallback_def)

lemma initialPoseSrvCallback_fields [simp]:
  "lastLocalizedPose (initialPoseSrvCallback e st) = lastLocalizedPose st"
  "mm (initialPoseSrvCallback e st) = reset (mm st)"
  "initialized (initialPoseSrvCallback e st)"
  "receivedSensorData (initialPoseSrvCallback e st)"
  "firstRun (initialPoseSrvCallback e st)"
  "lastLaserTime (initialPoseSrvCallback e st) = lastLaserTime st"
  "pf (initialPoseSrvCallback e st) =
     pf st @ [DrawAllFromDistribution
                (gaussian_distribution e
                   (Transform (normalize (setRPY (roll (posParams e)) (pitch (posParams e))
                                 (yaw (posParams e))))
                      (Vector3 (xPos (posParams e)) (yPos (posParams e)) (zPos (posParams e))))
                   (stdDevs (cfg st))),
              SetResamplingMode RESAMPLE_NEFF, ResetTimer]"
  by (simp_all add: initialPoseSrvCallback_def Let_def)

lemma initialization_out:
  "st' \<in> set [initialPoseCallback e msg st, globalLocalizationCallback e st,
               initialPoseSrvCallback e st] \<Longrightarrow>
   \<exists>pre arr bp post. out st' = out st @ pre @ PublishPoseArray arr # PublishPose bp # post \<and>
     ps_stamp bp \<in> {ps_stamp msg, now e}"
proof -
  assume "st' \<in> set [initialPoseCallback e msg st, globalLocalizationCallback e st,
               initialPoseSrvCallback e st]"
  then consider (msg) "st' = initialPoseCallback e msg st"
    | (global) "st' = globalLocalizationCallback e st"
    | (srv) "st' = initialPoseSrvCallback e st"
    by auto
  then show ?thesis
  proof cases
    case msg
    let ?d = "gaussian_distribution e (pose_to_tf (ps_pose msg)) (stdDevs (cfg st))"
    show ?thesis
    proof (cases "ps_frame_id msg \<noteq> mapFrameID (cfg st)")
      case True
      let ?st1 = "st\<lparr>out := out st @ [Warn_FrameIdDiffers (ps_frame_id msg)]\<rparr>"
      from reinitialize_out [of e ?d "ps_stamp msg" ?st1] obtain arr bp post
        where "out (reinitialize e ?d (ps_stamp msg) ?st1) =
            out ?st1 @ PublishPoseArray arr # PublishPose bp # post" and "ps_stamp bp = ps_stamp msg"
        by blast
      then have "out st' = out st @ [Warn_FrameIdDiffers (ps_frame_id msg)] @
          PublishPoseArray arr # PublishPose bp # post \<and> ps_stamp bp \<in> {ps_stamp msg, now e}"
        using msg True by (simp add: initialPoseCallback_def Let_def)
      then show ?thesis by blast
    next
      case False
      from reinitialize_out [of e ?d "ps_stamp msg" st] obtain arr bp post
        where "out (reinitialize e ?d (ps_stamp msg) st) =
            out st @ PublishPoseArray arr # PublishPose bp # post" and "ps_stamp bp = ps_stamp msg"
        by blast
      then have "out st' = out st @ [] @
          PublishPoseArray arr # PublishPose bp # post \<and> ps_stamp bp \<in> {ps_stamp msg, now e}"
        using msg False by (simp add: initialPoseCallback_def Let_def)
      then show ?thesis by blast
    qed
  next
    case global
    from reinitialize_out [of e Uniform "now e" st] obtain arr bp post
      where "out (reinitialize e Uniform (now e) st) =
          out st @ PublishPoseArray arr # PublishPose bp # post" and "ps_stamp bp = now e"
      by blast
    then have "out st' = out st @ [] @
        PublishPoseArray arr # PublishPose bp # post \<and> ps_stamp bp \<in> {ps_stamp msg, now e}"
      using global by (simp add: globalLocalizationCallback_def)
    then show ?thesis by blast
  next
    case srv
    obtain d where d: "initialPoseSrvCallback e st = reinitialize e d (now e) st"
      by (simp add: initialPoseSrvCallback_def Let_def)
    from reinitialize_out [of e d "now e" st] obtain arr bp post
      where "out (reinitialize e d (now e) st) =
          out st @ PublishPoseArray arr # PublishPose bp # post" and "ps_stamp bp = now e"
      by blast
    then have "out st' = out st @ [] @
        PublishPoseArray arr # PublishPose bp # post \<and> ps_stamp bp \<in> {ps_stamp msg, now e}"
      using srv d by simp
    then show ?thesis by blast
  qed
qed

lemma first_scan_rebases:
  assumes "initialized st'" "firstRun st'"
    and "lookupOdomPose e (scan_stamp m) = Some p"
    and "lastLaserTime st' \<le> scan_stamp m"
  shows "\<exists>st''. scanCallback e m st' = Inr st'' \<and> lastLocalizedPose st'' = ps_pose p"
proof -
  have acc: "accepted e m st'"
    using assms by (simp add: accepted_def toSec_def)
  from scan_first_run [OF acc assms(2,3)] show ?thesis by simp
qed

text \<open>
  C3 as stated fails in its last-localized-pose part: after a fused update one metre from
  the origin, each of the three initialization entry points leaves the stored last
  localized pose at that place; it is neither the initial pose given nor a default value.
\<close>

theorem initialization_keeps_last_localized_pose:
  "lastLocalizedPose st_fused = ps_pose (moved_at 3000000000) \<and>
   lastLocalizedPose (initialPoseCallback env0 init_msg st_fused) = ps_pose (moved_at 3000000000) \<and>
   lastLocalizedPose (globalLocalizationCallback env0 st_fused) = ps_pose (moved_at 3000000000) \<and>
   lastLocalizedPose (initialPoseSrvCallback env0 st_fused) = ps_pose (moved_at 3000000000) \<and>
   ps_pose (moved_at 3000000000) \<noteq> ps_pose init_msg \<and>
   ps_pose (moved_at 3000000000) \<noteq> default_pose"
  by (simp add: st_fused_step moved_at_def init_msg_def origin_pose_def default_pose_def
      Vector3_def Quaternion_def)

text \<open>
  C3, as the code has it: each of the three entry points draws all particles from its
  distribution, selects the resample-on-Neff mode, resets the filter's timer and the
  movement model, sets the initialised, received-sensor-data and first-run flags, and
  publishes a pose estimate at once. The distribution of the global localization is the
  uniform one. The distribution of the two initial-pose entry points is the Gaussian with
  the configured standard deviations whose mean has the position of the given pose and,
  where \<^verbatim>\<open>tf2::getEulerYPR\<close> returns the yaw \<open>y\<close>, the pitch \<open>p\<close> and the roll \<open>r\<close> of
  its rotation, the roll \<open>y\<close>, the pitch \<open>p\<close> and the yaw \<open>r\<close>. The stored last localized
  pose is left as it was: the first-run flag makes the next accepted scan overwrite it
  with that scan's odometry pose.
\<close>

theorem initialization_entry_points:
  "(\<forall>y p r.
      getEulerYPR e (normalize (getRotation e (m_basis (pose_to_tf (ps_pose msg))))) = (y, p, r) \<longrightarrow>
      pf (initialPoseCallback e msg st) =
        pf st @ [DrawAllFromDistribution
                   (Gaussian \<lparr>xPos = vx (position (ps_pose msg)), yPos = vy (position (ps_pose msg)),
                              zPos = vz (position (ps_pose msg)),
                              roll = y, pitch = p, yaw = r\<rparr>
                      (stdDevs (cfg st))),
                 SetResamplingMode RESAMPLE_NEFF, ResetTimer]) \<and>
   pf (globalLocalizationCallback e st) =
     pf st @ [DrawAllFromDistribution Uniform, SetResamplingMode RESAMPLE_NEFF, ResetTimer] \<and>
   (\<forall>y p r.
      getEulerYPR e (normalize (getRotation e (setRotation (normalize
        (setRPY (roll (posParams e)) (pitch (posParams e)) (yaw (posParams e))))))) = (y, p, r) \<longrightarrow>
      pf (initialPoseSrvCallback e st) =
        pf st @ [DrawAllFromDistribution
                   (Gaussian \<lparr>xPos = xPos (posParams e), yPos = yPos (posParams e),
                              zPos = zPos (posParams e),
                              roll = y, pitch = p, yaw = r\<rparr>
                      (stdDevs (cfg st))),
                 SetResamplingMode RESAMPLE_NEFF, ResetTimer]) \<and>
   (\<forall>st' \<in> set [initialPoseCallback e msg st, globalLocalizationCallback e st,
                 initialPoseSrvCallback e st].
      mm st' = reset (mm st) \<and> initialized st' \<and> receivedSensorData st' \<and> firstRun st' \<and>
      lastLocalizedPose st' = lastLocalizedPose st \<and>
      (\<exists>pre arr bp post. out st' = out st @ pre @ PublishPoseArray arr # PublishPose bp # post \<and>
         ps_stamp bp \<in> {ps_stamp msg, now e}) \<and>
      (\<forall>e' m p. lookupOdomPose e' (scan_stamp m) = Some p \<longrightarrow>
         lastLaserTime st \<le> scan_stamp m \<longrightarrow>
         (\<exists>st''. scanCallback e' m st' = Inr st'' \<and> lastLocalizedPose st'' = ps_pose p)))"
proof -
  have msg_d: "pf (initialPoseCallback e msg st) =
        pf st @ [DrawAllFromDistribution
                   (Gaussian \<lparr>xPos = vx (position (ps_pose msg)), yPos = vy (position (ps_pose msg)),
                              zPos = vz (position (ps_pose msg)),
                              roll = y, pitch = p, yaw = r\<rparr>
                      (stdDevs (cfg st))),
                 SetResamplingMode RESAMPLE_NEFF, ResetTimer]"
    if "getEulerYPR e (normalize (getRotation e (m_basis (pose_to_tf (ps_pose msg))))) = (y, p, r)"
    for y p r
    using gaussian_distribution_mean [OF that, of "stdDevs (cfg st)"]
    by (simp add: pose_to_tf_def Transform_def Vector3_def)
  have srv_d: "pf (initialPoseSrvCallback e st) =
        pf st @ [DrawAllFromDistribution
                   (Gaussian \<lparr>xPos = xPos (posParams e), yPos = yPos (posParams e),
                              zPos = zPos (posParams e),
                              roll = y, pitch = p, yaw = r\<rparr>
                      (stdDevs (cfg st))),
                 SetResamplingMode RESAMPLE_NEFF, ResetTimer]"
    if "getEulerYPR e (normalize (getRotation e (setRotation (normalize
        (setRPY (roll (posParams e)) (pitch (posParams e)) (yaw (posParams e))))))) = (y, p, r)"
    for y p r
  proof -
    let ?tr = "Transform (normalize (setRPY (roll (posParams e)) (pitch (posParams e))
                 (yaw (posParams e))))
        (Vector3 (xPos (posParams e)) (yPos (posParams e)) (zPos (posParams e)))"
    have "getEulerYPR e (normalize (getRotation e (m_basis ?tr))) = (y, p, r)"
      using that by (simp add: Transform_def)
    from gaussian_distribution_mean [OF this, of "stdDevs (cfg st)"] show ?thesis
      by (simp add: Transform_def Vector3_def)
  qed
  have each: "mm st' = reset (mm st) \<and> initialized st' \<and> receivedSensorData st' \<and> firstRun st' \<and>
      lastLocalizedPose st' = lastLocalizedPose st \<and>
      (\<exists>pre arr bp post. out st' = out st @ pre @ PublishPoseArray arr # PublishPose bp # post \<and>
         ps_stamp bp \<in> {ps_stamp msg, now e}) \<and>
      (\<forall>e' m p. lookupOdomPose e' (scan_stamp m) = Some p \<longrightarrow>
         lastLaserTime st \<le> scan_stamp m \<longrightarrow>
         (\<exists>st''. scanCallback e' m st' = Inr st'' \<and> lastLocalizedPose st'' = ps_pose p))"
    if mem: "st' \<in> set [initialPoseCallback e msg st, globalLocalizationCallback e st,
                 initialPoseSrvCallback e st]" for st'
  proof -
    from mem have f: "mm st' = reset (mm st)" "initialized st'" "receivedSensorData st'"
      "firstRun st'" "lastLocalizedPose st' = lastLocalizedPose st"
      "lastLaserTime st' = lastLaserTime st"
      by auto
    have "\<exists>st''. scanCallback e' m st' = Inr st'' \<and> lastLocalizedPose st'' = ps_pose p"
      if "lookupOdomPose e' (scan_stamp m) = Some p" "lastLaserTime st \<le> scan_stamp m"
      for e' m p
      using f(2,4) that(1)
    proof (rule first_scan_rebases)
      show "lastLaserTime st' \<le> scan_stamp m"
        using that(2) f(6) by simp
    qed
    with f initialization_out [OF mem] show ?thesis by blast
  qed
  from msg_d srv_d each show ?thesis
    by (intro conjI allI impI ballI) (simp_all del: initialPoseCallback_fields(7)
        initialPoseSrvCallback_fields(7))
qed

lemma turned_euler:
  "getEulerYPR env0 (normalize (getRotation env0 (m_basis (pose_to_tf (ps_pose turned_msg))))) =
     (arctan (24 / 7), 0, 0)"
proof -
  have s: "sqrt (64 / 25) = 8 / 5"
    by (rule real_sqrt_unique) (simp_all add: power2_eq_square)
  have q: "getRotation env0 (m_basis (pose_to_tf (ps_pose turned_msg))) =
      Quaternion 0 0 (3 / 5) (4 / 5)"
    by (simp add: env0_def rotation_quaternion_def turned_msg_def pose_to_tf_def Transform_def
        setRotation_def length2_def Vector3_def Quaternion_def Let_def s)
  have n: "normalize (Quaternion 0 0 (3 / 5) (4 / 5)) = Quaternion 0 0 (3 / 5) (4 / 5)"
    by (simp add: normalize_def length2_def Quaternion_def Let_def)
  show ?thesis
    unfolding q n
    by (simp add: env0_def euler_ypr_def Quaternion_def atan2_def Let_def)
qed

lemma params_euler:
  "getEulerYPR env0 (normalize (getRotation env0 (setRotation (normalize
     (setRPY (roll (posParams env0)) (pitch (posParams env0)) (yaw (posParams env0))))))) =
     (0, 0, 0)"
proof -
  have r: "setRPY (roll (posParams env0)) (pitch (posParams env0)) (yaw (posParams env0)) =
      Quaternion 0 0 0 1"
    by (simp add: env0_def zero_state_def setRPY_def Let_def)
  have n: "normalize (Quaternion 0 0 0 1) = Quaternion 0 0 0 1"
    by (simp add: normalize_def length2_def Quaternion_def Let_def)
  have q: "getRotation env0 (setRotation (Quaternion 0 0 0 1)) = Quaternion 0 0 0 1"
    by (simp add: env0_def rotation_quaternion_def setRotation_def length2_def Vector3_def
        Quaternion_def Let_def)
  show ?thesis
    unfolding r n q
    by (simp add: n env0_def euler_ypr_def Quaternion_def atan2_def Let_def)
qed

text \<open>
  The three entry points after the fused update of the example run. The message turned
  about the z axis gives a distribution whose mean is rolled by that angle and not turned;
  after the global localization the last localized pose is rebased only by the scan that
  follows.
\<close>

theorem initialization_entry_points_witness:
  "getEulerYPR env0 (normalize (getRotation env0 (m_basis (pose_to_tf (ps_pose turned_msg))))) =
     (arctan (24 / 7), 0, 0) \<and>
   pf (initialPoseCallback env0 turned_msg st_fused) =
     pf st_fused @
       [DrawAllFromDistribution
          (Gaussian \<lparr>xPos = 0, yPos = 0, zPos = 0, roll = arctan (24 / 7), pitch = 0, yaw = 0\<rparr>
             (stdDevs (cfg st_fused))),
        SetResamplingMode RESAMPLE_NEFF, ResetTimer] \<and>
   pf (initialPoseSrvCallback env0 st_fused) =
     pf st_fused @
       [DrawAllFromDistribution
          (Gaussian \<lparr>xPos = 0, yPos = 0, zPos = 0, roll = 0, pitch = 0, yaw = 0\<rparr>
             (stdDevs (cfg st_fused))),
        SetResamplingMode RESAMPLE_NEFF, ResetTimer] \<and>
   lookupOdomPose env0 (scan_stamp scan2) = Some (odom_at 4000000000) \<and>
   lastLaserTime st_fused \<le> scan_stamp scan2 \<and>
   firstRun (globalLocalizationCallback env0 st_fused) \<and>
   lastLocalizedPose (globalLocalizationCallback env0 st_fused) = ps_pose (moved_at 3000000000) \<and>
   map_sum id lastLocalizedPose (scanCallback env0 scan2 (globalLocalizationCallback env0 st_fused)) =
     Inr origin_pose"
proof -
  note inst = initialization_entry_points [of env0 turned_msg st_fused]
  have h1: "lookupOdomPose env0 (scan_stamp scan2) = Some (odom_at 4000000000)"
    by (simp add: env0_odom scan2_def)
  have h2: "lastLaserTime st_fused \<le> scan_stamp scan2"
    by (simp add: st_fused_step scan2_def)
  have mem: "globalLocalizationCallback env0 st_fused \<in>
      set [initialPoseCallback env0 turned_msg st_fused, globalLocalizationCallback env0 st_fused,
           initialPoseSrvCallback env0 st_fused]"
    by simp
  from inst turned_euler
  have d1: "pf (initialPoseCallback env0 turned_msg st_fused) =
     pf st_fused @
       [DrawAllFromDistribution
          (Gaussian \<lparr>xPos = vx (position (ps_pose turned_msg)),
                     yPos = vy (position (ps_pose turned_msg)),
                     zPos = vz (position (ps_pose turned_msg)),
                     roll = arctan (24 / 7), pitch = 0, yaw = 0\<rparr>
             (stdDevs (cfg st_fused))),
        SetResamplingMode RESAMPLE_NEFF, ResetTimer]"
    by blast
  from inst params_euler
  have d2: "pf (initialPoseSrvCallback env0 st_fused) =
     pf st_fused @
       [DrawAllFromDistribution
          (Gaussian \<lparr>xPos = xPos (posParams env0), yPos = yPos (posParams env0),
                     zPos = zPos (posParams env0), roll = 0, pitch = 0, yaw = 0\<rparr>
             (stdDevs (cfg st_fused))),
        SetResamplingMode RESAMPLE_NEFF, ResetTimer]"
    by blast
  from inst mem
  have a: "firstRun (globalLocalizationCallback env0 st_fused)"
    and b: "lastLocalizedPose (globalLocalizationCallback env0 st_fused) = lastLocalizedPose st_fused"
    and c: "\<forall>e' m p. lookupOdomPose e' (scan_stamp m) = Some p \<longrightarrow>
         lastLaserTime st_fused \<le> scan_stamp m \<longrightarrow>
         (\<exists>st''. scanCallback e' m (globalLocalizationCallback env0 st_fused) = Inr st'' \<and>
            lastLocalizedPose st'' = ps_pose p)"
    by blast+
  from c h1 h2 obtain st''
    where s: "scanCallback env0 scan2 (globalLocalizationCallback env0 st_fused) = Inr st''"
      and l: "lastLocalizedPose st'' = ps_pose (odom_at 4000000000)"
    by blast
  have e1: "pf (initialPoseCallback env0 turned_msg st_fused) =
     pf st_fused @
       [DrawAllFromDistribution
          (Gaussian \<lparr>xPos = 0, yPos = 0, zPos = 0, roll = arctan (24 / 7), pitch = 0, yaw = 0\<rparr>
             (stdDevs (cfg st_fused))),
        SetResamplingMode RESAMPLE_NEFF, ResetTimer]"
    unfolding d1 by (simp add: turned_msg_def Vector3_def)
  have e2: "pf (initialPoseSrvCallback env0 st_fused) =
     pf st_fused @
       [DrawAllFromDistribution
          (Gaussian \<lparr>xPos = 0, yPos = 0, zPos = 0, roll = 0, pitch = 0, yaw = 0\<rparr>
             (stdDevs (cfg st_fused))),
        SetResamplingMode RESAMPLE_NEFF, ResetTimer]"
    unfolding d2 by (simp add: env0_def zero_state_def)
  have e3: "map_sum id lastLocalizedPose
      (scanCallback env0 scan2 (globalLocalizationCallback env0 st_fused)) = Inr origin_pose"
    using s l by (simp add: odom_at_def)
  have e4: "lastLocalizedPose (globalLocalizationCallback env0 st_fused) =
      ps_pose (moved_at 3000000000)"
    using b by (simp add: st_fused_step)
  from turned_euler e1 e2 h1 h2 a e4 e3 show ?thesis
    by (intro conjI)
qed










end
